theory Spec2Isabelle
  imports Complex_Main
begin

section \<open>Vocabulary of the host raster framework\<close>

text \<open>
  The RCM driver (rcmdataset.cpp, rcmdataset.h) is written against GDAL 2.4.4. The
  framework itself is not part of the driver; the few enumerations and helper functions
  of it that the driver's control flow looks at are written down here.
\<close>

datatype GDALDataType =
    GDT_Unknown | GDT_Byte | GDT_UInt16 | GDT_Int16 | GDT_UInt32 | GDT_Int32
  | GDT_Float32 | GDT_Float64 | GDT_CInt16 | GDT_CInt32 | GDT_CFloat32 | GDT_CFloat64

text \<open>
  Modelled from the spec: \<open>GDALDataTypeIsComplex\<close> belongs to the host framework and is
  not among the driver's sources. The spec calls CInt16, CInt32, CFloat32 and CFloat64 the
  complex element types, and the driver's own \<open>IsComplex\<close> methods test for the same four.
\<close>

fun GDALDataTypeIsComplex :: "GDALDataType \<Rightarrow> bool" where
  "GDALDataTypeIsComplex GDT_CInt16 = True"
| "GDALDataTypeIsComplex GDT_CInt32 = True"
| "GDALDataTypeIsComplex GDT_CFloat32 = True"
| "GDALDataTypeIsComplex GDT_CFloat64 = True"
| "GDALDataTypeIsComplex _ = False"

datatype CPLErr = CE_None | CE_Failure

text \<open>
  \<open>eCalibration\<close> (declared in gdal_pam.h). The fifth member is called \<open>None\<close> in the
  source; it is \<open>NoCalib\<close> here because \<open>None\<close> is HOL's empty option.
\<close>

datatype eCalibration = Sigma0 | Gamma | Beta0 | Uncalib | NoCalib

text \<open>
  Where the C program reads through a null pointer (\<open>NullDeref\<close>), reads or writes
  outside an array (\<open>OutOfBounds\<close>), hands \<open>sprintf\<close> an \<open>int\<close> for a \<open>%s\<close>
  conversion (\<open>BadFormat\<close>) or frees a block that is freed again later (\<open>BadFree\<close>),
  the C language defines no behaviour and the process as a rule dies. No value of the
  program comes out of such a step; the model returns one of these instead.
\<close>

datatype fault = NullDeref | OutOfBounds | BadFormat | BadFree

text \<open>
  An opened image file, as far as the driver looks at it: the element type and block size
  of each of its bands (band numbers start at 1) and its raster width.
\<close>

record GDALRasterBand =
  rb_eDataType :: GDALDataType
  rb_nBlockXSize :: int
  rb_nBlockYSize :: int

record GDALDataset =
  gd_bands :: "GDALRasterBand list"
  gd_nRasterXSize :: int

definition GetRasterCount :: "GDALDataset \<Rightarrow> int" where
  "GetRasterCount ds = int (length (gd_bands ds))"

definition GetRasterBand :: "GDALDataset \<Rightarrow> int \<Rightarrow> GDALRasterBand option" where
  "GetRasterBand ds n =
     (if 1 \<le> n \<and> n \<le> GetRasterCount ds then Some (gd_bands ds ! nat (n - 1)) else None)"

section \<open>Case-insensitive string tests\<close>

text \<open>
  \<open>EQUAL\<close> and \<open>STARTS_WITH_CI\<close> are the framework's \<open>strcasecmp\<close> and
  \<open>strncasecmp\<close> on ASCII strings.
\<close>

definition c_toupper :: "char \<Rightarrow> char" where
  "c_toupper c =
     (case map_of (zip ''abcdefghijklmnopqrstuvwxyz'' ''ABCDEFGHIJKLMNOPQRSTUVWXYZ'') c of
        Some u \<Rightarrow> u
      | None \<Rightarrow> c)"

definition EQUAL :: "string \<Rightarrow> string \<Rightarrow> bool" where
  "EQUAL a b = (map c_toupper a = map c_toupper b)"

definition STARTS_WITH_CI :: "string \<Rightarrow> string \<Rightarrow> bool" where
  "STARTS_WITH_CI a b =
     (length b \<le> length a \<and> map c_toupper (take (length b) a) = map c_toupper b)"

text \<open>\<open>strstr(s, n) != NULL\<close>: the string \<open>n\<close> occurs in \<open>s\<close>.\<close>

fun starts_with :: "string \<Rightarrow> string \<Rightarrow> bool" where
  "starts_with s [] = True"
| "starts_with [] (c # cs) = False"
| "starts_with (x # xs) (c # cs) = (x = c \<and> starts_with xs cs)"

fun strstr :: "string \<Rightarrow> string \<Rightarrow> bool" where
  "strstr [] n = (n = [])"
| "strstr (x # xs) n = (starts_with (x # xs) n \<or> strstr xs n)"

section \<open>The band-file prober\<close>

datatype BandMappingRCM = BANDERROR | STRAIGHT | TWOBANDCOMPLEX

text \<open>
  \<open>checkBandFileMappingRCM\<close>. The test on a two-band file sits inside one \<open>if\<close> block of
  the source; when neither pairing rule of that block fires, control falls through to the
  NITF test below it, but the unequal-types test inside the block returns at once.
\<close>

definition checkBandFileMappingRCM ::
  "GDALDataType \<Rightarrow> GDALDataset \<Rightarrow> bool \<Rightarrow> fault + BandMappingRCM" where
  "checkBandFileMappingRCM dataType poBandFile isNITF =
     (case GetRasterBand poBandFile 1 of
        None \<Rightarrow> Inl NullDeref
      | Some band1 \<Rightarrow>
          (let bandfileType = rb_eDataType band1;
               rest = (if isNITF then Inr STRAIGHT else Inr BANDERROR)
           in if (GetRasterCount poBandFile = 1 \<or> GetRasterCount poBandFile = 4)
                 \<and> dataType = bandfileType
              then Inr STRAIGHT
              else if GetRasterCount poBandFile = 2 \<and> GDALDataTypeIsComplex dataType
              then (case GetRasterBand poBandFile 2 of
                      None \<Rightarrow> Inl NullDeref
                    | Some band2 \<Rightarrow>
                        if bandfileType \<noteq> rb_eDataType band2 then Inr BANDERROR
                        else if (dataType = GDT_CInt16 \<and> bandfileType = GDT_Int16)
                              \<or> (dataType = GDT_CInt32 \<and> bandfileType = GDT_Int32)
                              \<or> (dataType = GDT_CFloat32 \<and> bandfileType = GDT_Float32)
                              \<or> (dataType = GDT_CFloat64 \<and> bandfileType = GDT_Float64)
                        then Inr TWOBANDCOMPLEX
                        else if (dataType = GDT_CInt16 \<and> bandfileType = GDT_CInt16)
                              \<or> (dataType = GDT_CInt32 \<and> bandfileType = GDT_CInt32)
                              \<or> (dataType = GDT_CFloat32 \<and> bandfileType = GDT_CFloat32)
                              \<or> (dataType = GDT_CFloat64 \<and> bandfileType = GDT_CFloat64)
                        then Inr TWOBANDCOMPLEX
                        else rest)
              else rest))"

text \<open>A file whose bands have the given element types (block size 512 x 512).\<close>

definition file_of_types :: "GDALDataType list \<Rightarrow> int \<Rightarrow> GDALDataset" where
  "file_of_types ts w =
     \<lparr> gd_bands = map (\<lambda>t. \<lparr> rb_eDataType = t, rb_nBlockXSize = 512, rb_nBlockYSize = 512 \<rparr>) ts,
       gd_nRasterXSize = w \<rparr>"

section \<open>Machine numbers\<close>

subsection \<open>Integers\<close>

text \<open>
  The driver's \<open>int\<close> is 32 bits wide. Where a value is computed from numbers that a
  file or a caller supplies (the product of LUT step and count, the sum of offset and
  width), the two's-complement wrap-around of the compiled code is written out.
\<close>

definition INT_MAX :: int where
  "INT_MAX = 2147483647"

definition wrap32 :: "int \<Rightarrow> int" where
  "wrap32 x = (x + 2147483648) mod 4294967296 - 2147483648"

definition c_abs :: "int \<Rightarrow> int" where
  "c_abs x = wrap32 \<bar>x\<bar>"

subsection \<open>Floating point\<close>

text \<open>
  A value of type \<open>double\<close> or \<open>float\<close>: a finite number, one of the two infinities,
  or a NaN. The sign of a zero is not kept (a zero divisor counts as \<open>+0\<close>).
\<close>

datatype c_double = Finite real | PosInf | NegInf | NaN

text \<open>
  Rounding to the nearest integer, ties to the even one, and with it the rounding of a
  real number to a binary floating-point format of precision \<open>p\<close> bits with exponents
  from \<open>emin\<close> to \<open>emax\<close>: the number is scaled by the spacing of the format at its
  magnitude (the spacing of the smallest normal numbers below them), rounded to an
  integer and scaled back; a result of magnitude \<open>2 ^ (emax + 1)\<close> or more is an
  infinity. \<open>dbl\<close> is the rounding of IEEE 754 binary64, the \<open>double\<close> of the compiled
  driver, and \<open>flt\<close> that of binary32, its \<open>float\<close>.
\<close>

definition rne :: "real \<Rightarrow> int" where
  "rne y =
     (let f = \<lfloor>y\<rfloor>; d = y - of_int f
      in if d < 1 / 2 then f
         else if 1 / 2 < d then f + 1
         else if even f then f else f + 1)"

definition fp_round :: "nat \<Rightarrow> int \<Rightarrow> int \<Rightarrow> real \<Rightarrow> c_double" where
  "fp_round p emin emax x =
     (if x = 0 then Finite 0
      else
        (let u = 2 powr of_int (max \<lfloor>log 2 \<bar>x\<bar>\<rfloor> emin - (int p - 1));
             r = of_int (rne (x / u)) * u
         in if 2 powr of_int (emax + 1) \<le> \<bar>r\<bar> then (if 0 < x then PosInf else NegInf)
            else Finite r))"

definition dbl :: "real \<Rightarrow> c_double" where
  "dbl = fp_round 53 (- 1022) 1023"


text \<open>
  The arithmetic of the C expressions, each operation rounded once with the rounding
  \<open>R\<close> of the type it is carried out in (no fused multiply-add). The special cases are
  those of IEEE 754: a NaN operand gives a NaN, as do \<open>\<infinity> - \<infinity>\<close>, \<open>0 * \<infinity>\<close>, \<open>0 / 0\<close>
  and \<open>\<infinity> / \<infinity>\<close>; a non-zero number divided by zero is an infinity.
\<close>

fun fp_neg :: "c_double \<Rightarrow> c_double" where
  "fp_neg (Finite x) = Finite (- x)"
| "fp_neg PosInf = NegInf"
| "fp_neg NegInf = PosInf"
| "fp_neg NaN = NaN"

fun fp_add :: "(real \<Rightarrow> c_double) \<Rightarrow> c_double \<Rightarrow> c_double \<Rightarrow> c_double" where
  "fp_add R (Finite x) (Finite y) = R (x + y)"
| "fp_add R (Finite x) b = b"
| "fp_add R a (Finite y) = a"
| "fp_add R PosInf PosInf = PosInf"
| "fp_add R NegInf NegInf = NegInf"
| "fp_add R a b = NaN"

definition fp_sub :: "(real \<Rightarrow> c_double) \<Rightarrow> c_double \<Rightarrow> c_double \<Rightarrow> c_double" where
  "fp_sub R a b = fp_add R a (fp_neg b)"

fun fp_sign :: "c_double \<Rightarrow> int" where
  "fp_sign (Finite x) = (if x < 0 then - 1 else if x = 0 then 0 else 1)"
| "fp_sign PosInf = 1"
| "fp_sign NegInf = - 1"
| "fp_sign NaN = 0"

fun fp_mul :: "(real \<Rightarrow> c_double) \<Rightarrow> c_double \<Rightarrow> c_double \<Rightarrow> c_double" where
  "fp_mul R (Finite x) (Finite y) = R (x * y)"
| "fp_mul R NaN b = NaN"
| "fp_mul R a NaN = NaN"
| "fp_mul R a b =
     (if fp_sign a * fp_sign b = 0 then NaN
      else if 0 < fp_sign a * fp_sign b then PosInf else NegInf)"

fun fp_div :: "(real \<Rightarrow> c_double) \<Rightarrow> c_double \<Rightarrow> c_double \<Rightarrow> c_double" where
  "fp_div R (Finite x) (Finite y) =
     (if y \<noteq> 0 then R (x / y)
      else if x = 0 then NaN
      else if 0 < x then PosInf else NegInf)"
| "fp_div R NaN b = NaN"
| "fp_div R a NaN = NaN"
| "fp_div R (Finite x) b = Finite 0"
| "fp_div R a (Finite y) = (if (0 < fp_sign a) = (0 \<le> y) then PosInf else NegInf)"
| "fp_div R a b = NaN"

fun fp_abs :: "c_double \<Rightarrow> c_double" where
  "fp_abs (Finite x) = Finite \<bar>x\<bar>"
| "fp_abs PosInf = PosInf"
| "fp_abs NegInf = PosInf"
| "fp_abs NaN = NaN"

text \<open>\<open>a > b\<close>: false as soon as one side is a NaN.\<close>

fun fp_gt :: "c_double \<Rightarrow> c_double \<Rightarrow> bool" where
  "fp_gt NaN b = False"
| "fp_gt a NaN = False"
| "fp_gt (Finite x) (Finite y) = (y < x)"
| "fp_gt a PosInf = False"
| "fp_gt PosInf b = True"
| "fp_gt NegInf b = False"
| "fp_gt a NegInf = True"

text \<open>
  The conversions: an \<open>int\<close> or a \<open>float\<close> becomes a \<open>double\<close> unchanged; a number
  stored into a \<open>float\<close> is rounded to that type.
\<close>

definition int_to_double :: "int \<Rightarrow> c_double" where
  "int_to_double n = Finite (of_int n)"


section \<open>The raw band\<close>

text \<open>
  \<open>RCMRasterBand\<close>: the fields of the class that its methods read. \<open>rw_isComplexData\<close>
  stands for \<open>poRCMDataset->IsComplexData()\<close>, the flag of the owning dataset, which is
  fixed once the dataset is open. \<open>nRasterXSize\<close> and \<open>nRasterYSize\<close> are the dataset's
  dimensions, copied into the band when it is attached.
\<close>

record RCMRasterBand =
  rw_poBandFile :: GDALDataset
  rw_m_eCalib :: eCalibration
  rw_nBand :: int
  rw_eDataType :: GDALDataType
  rw_twoBandComplex :: bool
  rw_isOneFilePerPol :: bool
  rw_isNITF :: bool
  rw_isComplexData :: bool
  rw_nBlockXSize :: int
  rw_nBlockYSize :: int
  rw_nRasterXSize :: int
  rw_nRasterYSize :: int

definition RCMRasterBand_GetLUT :: "RCMRasterBand \<Rightarrow> int \<Rightarrow> c_double" where
  "RCMRasterBand_GetLUT b pixel = NaN"

definition RCMRasterBand_GetLUTsize :: "RCMRasterBand \<Rightarrow> int" where
  "RCMRasterBand_GetLUTsize b = 0"

definition RCMRasterBand_GetLUTFilename :: "RCMRasterBand \<Rightarrow> string option" where
  "RCMRasterBand_GetLUTFilename b = None"

definition RCMRasterBand_GetLUTOffset :: "RCMRasterBand \<Rightarrow> c_double" where
  "RCMRasterBand_GetLUTOffset b = Finite 0"

definition RCMRasterBand_IsExistLUT :: "RCMRasterBand \<Rightarrow> bool" where
  "RCMRasterBand_IsExistLUT b = False"

text \<open>
  \<open>SetPartialLUT\<close> of the raw band has an empty body: the band and whatever else the
  caller holds (\<open>world\<close>: the dataset, its metadata) come back as they went in.
\<close>

definition RCMRasterBand_SetPartialLUT ::
  "RCMRasterBand \<times> 'w \<Rightarrow> int \<Rightarrow> int \<Rightarrow> RCMRasterBand \<times> 'w" where
  "RCMRasterBand_SetPartialLUT bw pixel_offset pixel_width = bw"

section \<open>Dataset metadata written for the LUT\<close>

text \<open>
  The source builds the key of a per-band item as the item's name followed by the text
  in the buffer \<open>bandNumber\<close>, and the value with \<open>sprintf\<close> (\<open>%d\<close>, \<open>%f\<close>, \<open>%e\<close>); the
  model keeps the text of \<open>bandNumber\<close> and the numbers themselves. The three items
  \<open>BETA_NOUGHT_LUT\<close>, \<open>SIGMA_NOUGHT_LUT\<close> and \<open>GAMMA_LUT\<close> list the LUT files that
  \<open>Open\<close> found.
\<close>

datatype mdkey =
    LUT_GAINS string | LUT_TYPE string | LUT_SIZE string | LUT_OFFSET string
  | BETA_NOUGHT_LUT | SIGMA_NOUGHT_LUT | GAMMA_LUT

datatype mdval = MdGains "c_double list" | MdText string | MdInt int | MdReal c_double

type_synonym metadata = "mdkey \<rightharpoonup> mdval"

text \<open>
  \<open>sprintf(bandNumber, "%s", n)\<close> with \<open>n\<close> of type \<open>int\<close>, as \<open>ReadLUT\<close>,
  \<open>ReadNoiseLevels\<close> and \<open>SetPartialLUT\<close> call it to print the band number. The
  conversion \<open>%s\<close> takes its argument for the address of a string, and the argument is
  a small integer: the call has no defined behaviour, \<open>sprintf\<close> reads from the address
  \<open>n\<close>, and no text is produced.
\<close>

definition sprintf_s_int :: "int \<Rightarrow> fault + string" where
  "sprintf_s_int n = Inl BadFormat"

section \<open>The calibrated band\<close>

text \<open>
  The content of a LUT file after \<open>CPLGetXMLValue\<close>, \<open>CPLAtof\<close> and \<open>atoi\<close>: a field
  that is missing from the document has the default the source passes (zero, or no gains).
  A file that cannot be parsed gives a null tree, on which every lookup returns its default.
\<close>

record LutXml =
  lx_offset :: c_double
  lx_pixelFirstLutValue :: int
  lx_stepSize :: int
  lx_numberOfValues :: int
  lx_gains :: "string list"

definition lut_values :: "LutXml option \<Rightarrow> LutXml" where
  "lut_values psLUT =
     (case psLUT of
        None \<Rightarrow> \<lparr> lx_offset = Finite 0, lx_pixelFirstLutValue = 0, lx_stepSize = 0,
                  lx_numberOfValues = 0, lx_gains = [] \<rparr>
      | Some x \<Rightarrow> x)"

text \<open>
  One \<open>referenceNoiseLevel\<close> element of a noise-level file: each of the five children
  that \<open>ReadNoiseLevels\<close> looks up is there or not. The file as a whole is the list of
  these elements under the root \<open>noiseLevels\<close>, or nothing when the tree is null or has
  no such root.
\<close>

record RefNoiseLevel =
  rn_sarCalibrationType :: "string option"
  rn_pixelFirstNoiseValue :: "int option"
  rn_stepSize :: "int option"
  rn_numberOfValues :: "int option"
  rn_noiseLevelValues :: "string list option"

text \<open>
  \<open>InterpolateValues\<close> is declared in gdal_lut.h and defined outside the driver. The
  model takes it as a parameter \<open>IV\<close>: from the value tokens, the table size, the step, the
  number of values and the first pixel it returns the dense array.
\<close>

type_synonym interpolator = "string list \<Rightarrow> int \<Rightarrow> int \<Rightarrow> int \<Rightarrow> int \<Rightarrow> c_double list"

text \<open>
  \<open>RCMCalibRasterBand\<close>. The members that the constructor's initialiser list leaves
  out (the three LUT parameters and the noise-level members) are given the value 0 or
  null here until the first assignment.
\<close>

record RCMCalibRasterBand =
  cb_m_eCalib :: eCalibration
  cb_m_poBandDataset :: GDALDataset
  cb_m_eType :: GDALDataType
  cb_m_eOriginalType :: GDALDataType
  cb_m_nfTable :: "c_double list option"
  cb_m_nTableSize :: int
  cb_m_nfOffset :: c_double
  cb_m_pszLUTFile :: "string option"
  cb_pixelFirstLutValue :: int
  cb_stepSize :: int
  cb_numberOfValues :: int
  cb_m_pszNoiseLevelsFile :: "string option"
  cb_m_nfTableNoiseLevels :: "c_double list option"
  cb_m_nTableNoiseLevelsSize :: int
  cb_pixelFirstLutValueNoiseLevels :: int
  cb_stepSizeNoiseLevels :: int
  cb_numberOfValuesNoiseLevels :: int
  cb_eDataType :: GDALDataType
  cb_nBlockXSize :: int
  cb_nBlockYSize :: int
  cb_nBand :: int
  cb_nRasterXSize :: int
  cb_nRasterYSize :: int

text \<open>The three error messages of \<open>ReadLUT\<close>, each reported with \<open>CE_Failure\<close>.\<close>

datatype lut_error = LutNumberOfValues | LutDescending | LutRange

text \<open>
  \<open>ReadLUT\<close>. \<open>nBands\<close> is \<open>poDS->GetRasterCount()\<close> at the time of the call, and
  \<open>psLUT\<close> what \<open>CPLParseXMLFile\<close> returns for the LUT file. The first statement
  prints the band number into \<open>bandNumber\<close>. What follows it in the source is written
  out after it: the function returns nothing; the third component here is the error it
  reported, if any. After an error the fields assigned before the \<open>return\<close> keep their
  new values, the table stays null and no metadata is written. The loop that prints the
  gains reads \<open>m_nTableSize\<close> entries of the array that \<open>InterpolateValues\<close> returned.
\<close>

definition ReadLUT ::
  "interpolator \<Rightarrow> LutXml option \<Rightarrow> int \<Rightarrow> RCMCalibRasterBand \<times> metadata
     \<Rightarrow> fault + (RCMCalibRasterBand \<times> metadata \<times> lut_error option)" where
  "ReadLUT IV psLUT nBands bm =
     (case sprintf_s_int (nBands + 1) of
        Inl e \<Rightarrow> Inl e
      | Inr bandNumber \<Rightarrow>
     (let b = fst bm; md = snd bm;
          x = lut_values psLUT;
          b1 = b \<lparr> cb_m_nfOffset := lx_offset x,
                   cb_pixelFirstLutValue := lx_pixelFirstLutValue x,
                   cb_stepSize := lx_stepSize x,
                   cb_numberOfValues := lx_numberOfValues x \<rparr>
      in if cb_numberOfValues b1 \<le> 0 then Inr (b1, md, Some LutNumberOfValues)
         else if cb_stepSize b1 \<le> 0 \<and> cb_pixelFirstLutValue b1 \<le> 0
         then Inr (b1, md, Some LutDescending)
         else
           (let b2 = b1 \<lparr> cb_m_nTableSize :=
                            wrap32 (c_abs (cb_stepSize b1) * c_abs (cb_numberOfValues b1)) \<rparr>
            in if cb_m_nTableSize b2 < gd_nRasterXSize (cb_m_poBandDataset b2)
               then Inr (b2, md, Some LutRange)
               else
                 (let t = IV (lx_gains x) (cb_m_nTableSize b2) (cb_stepSize b2)
                             (cb_numberOfValues b2) (cb_pixelFirstLutValue b2);
                      b3 = b2 \<lparr> cb_m_nfTable := Some t \<rparr>;
                      md1 = md(LUT_GAINS bandNumber \<mapsto> MdGains (take (nat (cb_m_nTableSize b3)) t));
                      md2 = (if cb_m_eCalib b3 = Sigma0
                             then md1(LUT_TYPE bandNumber \<mapsto> MdText ''SIGMA0'')
                             else if cb_m_eCalib b3 = Beta0
                             then md1(LUT_TYPE bandNumber \<mapsto> MdText ''BETA0'')
                             else if cb_m_eCalib b3 = Gamma
                             then md1(LUT_TYPE bandNumber \<mapsto> MdText ''GAMMA'')
                             else md1);
                      md3 = md2(LUT_SIZE bandNumber \<mapsto> MdInt (cb_m_nTableSize b3));
                      md4 = md3(LUT_OFFSET bandNumber \<mapsto> MdReal (cb_m_nfOffset b3))
                  in if int (length t) < cb_m_nTableSize b3 then Inl OutOfBounds
                     else Inr (b3, md4, None)))))"

text \<open>
  \<open>ReadNoiseLevels\<close>. Without a file name it returns at once. Otherwise it prints the
  band number as \<open>ReadLUT\<close> does, parses the file (\<open>psNoiseLevels\<close> is the list of
  \<open>referenceNoiseLevel\<close> elements under the root, if there is one) and reads
  \<open>psChild\<close> of the root without a test. \<open>noise_scan\<close> is its loop over the elements:
  an element with all five children sets the three noise parameters and the table size,
  and fills the table when its calibration type is the band's; the loop ends when the
  table is filled.
\<close>

fun noise_scan :: "interpolator \<Rightarrow> RefNoiseLevel list \<Rightarrow> RCMCalibRasterBand \<Rightarrow> RCMCalibRasterBand" where
  "noise_scan IV [] b = b"
| "noise_scan IV (n # ns) b =
     (case (rn_sarCalibrationType n, rn_pixelFirstNoiseValue n, rn_stepSize n,
            rn_numberOfValues n, rn_noiseLevelValues n) of
        (Some calibType, Some pixelFirst, Some stepSize, Some numberOfValues, Some vals) \<Rightarrow>
          (let b1 = b \<lparr> cb_pixelFirstLutValueNoiseLevels := pixelFirst,
                        cb_stepSizeNoiseLevels := stepSize,
                        cb_numberOfValuesNoiseLevels := numberOfValues,
                        cb_m_nTableNoiseLevelsSize :=
                          wrap32 (c_abs stepSize * c_abs numberOfValues) \<rparr>
           in if (EQUAL calibType ''Beta Nought'' \<and> cb_m_eCalib b = Beta0)
                 \<or> (EQUAL calibType ''Sigma Nought'' \<and> cb_m_eCalib b = Sigma0)
                 \<or> (EQUAL calibType ''Gamma'' \<and> cb_m_eCalib b = Gamma)
              then b1 \<lparr> cb_m_nfTableNoiseLevels :=
                          Some (IV vals (cb_m_nTableNoiseLevelsSize b1) stepSize numberOfValues
                                  pixelFirst) \<rparr>
              else noise_scan IV ns b1)
      | _ \<Rightarrow> noise_scan IV ns b)"

definition ReadNoiseLevels ::
  "interpolator \<Rightarrow> RefNoiseLevel list option \<Rightarrow> int \<Rightarrow> RCMCalibRasterBand
     \<Rightarrow> fault + RCMCalibRasterBand" where
  "ReadNoiseLevels IV psNoiseLevels nBands b =
     (let b0 = b \<lparr> cb_m_nfTableNoiseLevels := None \<rparr>
      in case cb_m_pszNoiseLevelsFile b0 of
           None \<Rightarrow> Inr b0
         | Some f \<Rightarrow>
             (case sprintf_s_int (nBands + 1) of
                Inl e \<Rightarrow> Inl e
              | Inr bandNumber \<Rightarrow>
                  (case psNoiseLevels of
                     None \<Rightarrow> Inl NullDeref
                   | Some nodes \<Rightarrow> Inr (noise_scan IV nodes b0))))"

text \<open>
  The constructor: it fixes the reported element type from \<open>eType\<close>, takes the block size
  of the file's first band and calls \<open>ReadLUT\<close> and then \<open>ReadNoiseLevels\<close>. The band
  number and the raster size are zero until \<open>SetBand\<close> attaches the band to the dataset.
\<close>

definition RCMCalibRasterBand_new ::
  "interpolator \<Rightarrow> int \<Rightarrow> metadata \<Rightarrow> GDALDataType \<Rightarrow> GDALDataset \<Rightarrow> eCalibration
     \<Rightarrow> string option \<Rightarrow> LutXml option \<Rightarrow> string option \<Rightarrow> RefNoiseLevel list option
     \<Rightarrow> GDALDataType
     \<Rightarrow> fault + (RCMCalibRasterBand \<times> metadata \<times> lut_error option)" where
  "RCMCalibRasterBand_new IV nBands md eType poBandDataset eCalib pszLUT psLUT
       pszNoiseLevels psNoiseLevels eOriginalType =
     (case GetRasterBand poBandDataset 1 of
        None \<Rightarrow> Inl NullDeref
      | Some poRasterBand \<Rightarrow>
          (case ReadLUT IV psLUT nBands
                  (\<lparr> cb_m_eCalib = eCalib,
                     cb_m_poBandDataset = poBandDataset,
                     cb_m_eType = eType,
                     cb_m_eOriginalType = eOriginalType,
                     cb_m_nfTable = None,
                     cb_m_nTableSize = 0,
                     cb_m_nfOffset = Finite 0,
                     cb_m_pszLUTFile = pszLUT,
                     cb_pixelFirstLutValue = 0,
                     cb_stepSize = 0,
                     cb_numberOfValues = 0,
                     cb_m_pszNoiseLevelsFile = pszNoiseLevels,
                     cb_m_nfTableNoiseLevels = None,
                     cb_m_nTableNoiseLevelsSize = 0,
                     cb_pixelFirstLutValueNoiseLevels = 0,
                     cb_stepSizeNoiseLevels = 0,
                     cb_numberOfValuesNoiseLevels = 0,
                     cb_eDataType = (if eType = GDT_CInt16 \<or> eType = GDT_CFloat32
                                     then GDT_CFloat32 else GDT_Float32),
                     cb_nBlockXSize = rb_nBlockXSize poRasterBand,
                     cb_nBlockYSize = rb_nBlockYSize poRasterBand,
                     cb_nBand = 0,
                     cb_nRasterXSize = 0,
                     cb_nRasterYSize = 0 \<rparr>, md) of
             Inl e \<Rightarrow> Inl e
           | Inr r \<Rightarrow>
               (case ReadNoiseLevels IV psNoiseLevels nBands (fst r) of
                  Inl e \<Rightarrow> Inl e
                | Inr b \<Rightarrow> Inr (b, snd r))))"






section \<open>Block reads\<close>

text \<open>
  Modelled from the spec: \<open>GDALGetDataTypeSize\<close> (bits per element) is a function of the
  host framework; the widths are the ones the element type names carry, a complex type
  being twice its component.
\<close>

fun GDALGetDataTypeSize :: "GDALDataType \<Rightarrow> int" where
  "GDALGetDataTypeSize GDT_Unknown = 0"
| "GDALGetDataTypeSize GDT_Byte = 8"
| "GDALGetDataTypeSize GDT_UInt16 = 16"
| "GDALGetDataTypeSize GDT_Int16 = 16"
| "GDALGetDataTypeSize GDT_UInt32 = 32"
| "GDALGetDataTypeSize GDT_Int32 = 32"
| "GDALGetDataTypeSize GDT_Float32 = 32"
| "GDALGetDataTypeSize GDT_Float64 = 64"
| "GDALGetDataTypeSize GDT_CInt16 = 32"
| "GDALGetDataTypeSize GDT_CInt32 = 64"
| "GDALGetDataTypeSize GDT_CFloat32 = 64"
| "GDALGetDataTypeSize GDT_CFloat64 = 128"

definition GDALGetDataTypeSizeBytes :: "GDALDataType \<Rightarrow> int" where
  "GDALGetDataTypeSizeBytes t = GDALGetDataTypeSize t div 8"

text \<open>
  A buffer is a store from cell index to cell value. The arguments the driver passes to
  the framework's \<open>RasterIO\<close> are collected in a record: \<open>rq_band = Some n\<close> is a call on
  band \<open>n\<close> of the file, \<open>None\<close> a call on the file itself for \<open>rq_nBandCount\<close> bands.
  \<open>RasterIO\<close> itself is the framework's: the model takes it as a parameter that maps the
  file, the request and the buffer to an error code and the buffer afterwards.
\<close>

record RasterIOReq =
  rq_band :: "int option"
  rq_nXOff :: int
  rq_nYOff :: int
  rq_nXSize :: int
  rq_nYSize :: int
  rq_nBufXSize :: int
  rq_nBufYSize :: int
  rq_eBufType :: GDALDataType
  rq_nBandCount :: int
  rq_nPixelSpace :: int
  rq_nLineSpace :: int
  rq_nBandSpace :: int

type_synonym 'v buffer = "int \<Rightarrow> 'v"

type_synonym 'v raster_io = "GDALDataset \<Rightarrow> RasterIOReq \<Rightarrow> 'v buffer \<Rightarrow> CPLErr \<times> 'v buffer"

text \<open>\<open>memset(p, 0, ...)\<close> over the first \<open>n\<close> cells; \<open>z\<close> is the cell with all bits zero.\<close>

definition memset0 :: "'v \<Rightarrow> int \<Rightarrow> 'v buffer \<Rightarrow> 'v buffer" where
  "memset0 z n buf = (\<lambda>k. if 0 \<le> k \<and> k < n then z else buf k)"

text \<open>
  The clipping test both \<open>IReadBlock\<close> methods start with, once per axis: the number of
  rows or columns to request, and whether the block is partial on that axis.
\<close>

definition clip_request :: "int \<Rightarrow> int \<Rightarrow> int \<Rightarrow> int \<times> bool" where
  "clip_request nBlockOff nBlockSize nRasterSize =
     (if (nBlockOff + 1) * nBlockSize > nRasterSize
      then (nRasterSize - nBlockOff * nBlockSize, True)
      else (nBlockSize, False))"



subsection \<open>The raw band\<close>

text \<open>
  \<open>RCMRasterBand::IReadBlock\<close>. The output buffer is counted in cells of the band's
  element type; the two \<open>memset\<close> calls clear all \<open>nBlockXSize * nBlockYSize\<close> of them.
  \<open>poBand\<close> is band 1 of the file when there is one file per polarization and band
  \<open>nBand\<close> otherwise. The last branch is \<open>CPLAssert(FALSE); return CE_Failure\<close>.
\<close>

definition raw_request ::
  "RCMRasterBand \<Rightarrow> int \<Rightarrow> int \<Rightarrow> int \<Rightarrow> int \<Rightarrow> GDALDataType \<Rightarrow> int \<Rightarrow> RasterIOReq" where
  "raw_request b nBlockXOff nBlockYOff nRequestXSize nRequestYSize bandFileType bandFileSize =
     (let dataTypeSize = GDALGetDataTypeSizeBytes (rw_eDataType b);
          onFile = \<lparr> rq_band = None,
                     rq_nXOff = nBlockXOff * rw_nBlockXSize b,
                     rq_nYOff = nBlockYOff * rw_nBlockYSize b,
                     rq_nXSize = nRequestXSize, rq_nYSize = nRequestYSize,
                     rq_nBufXSize = nRequestXSize, rq_nBufYSize = nRequestYSize,
                     rq_eBufType = bandFileType,
                     rq_nBandCount = 2,
                     rq_nPixelSpace = dataTypeSize,
                     rq_nLineSpace = dataTypeSize * rw_nBlockXSize b,
                     rq_nBandSpace = bandFileSize \<rparr>;
          onBand = \<lparr> rq_band = Some (if rw_isOneFilePerPol b then 1 else rw_nBand b),
                     rq_nXOff = nBlockXOff * rw_nBlockXSize b,
                     rq_nYOff = nBlockYOff * rw_nBlockYSize b,
                     rq_nXSize = nRequestXSize, rq_nYSize = nRequestYSize,
                     rq_nBufXSize = nRequestXSize, rq_nBufYSize = nRequestYSize,
                     rq_eBufType = rw_eDataType b,
                     rq_nBandCount = 1,
                     rq_nPixelSpace = 0,
                     rq_nLineSpace = dataTypeSize * rw_nBlockXSize b,
                     rq_nBandSpace = 0 \<rparr>
      in if rw_twoBandComplex b \<and> \<not> rw_isNITF b then onFile
         else if rw_twoBandComplex b \<and> rw_isNITF b then onBand
         else if rw_isComplexData b then onFile
         else onBand)"

definition RCMRasterBand_IReadBlock ::
  "('v::zero) raster_io \<Rightarrow> RCMRasterBand \<Rightarrow> int \<Rightarrow> int \<Rightarrow> 'v buffer
     \<Rightarrow> fault + (CPLErr \<times> 'v buffer)" where
  "RCMRasterBand_IReadBlock rio b nBlockXOff nBlockYOff pImage =
     (let cells = rw_nBlockXSize b * rw_nBlockYSize b;
          ry = clip_request nBlockYOff (rw_nBlockYSize b) (rw_nRasterYSize b);
          nRequestYSize = fst ry;
          img1 = (if snd ry then memset0 0 cells pImage else pImage);
          rx = clip_request nBlockXOff (rw_nBlockXSize b) (rw_nRasterXSize b);
          nRequestXSize = fst rx;
          img2 = (if snd rx then memset0 0 cells img1 else img1)
      in case GetRasterBand (rw_poBandFile b) 1 of
           None \<Rightarrow> Inl NullDeref
         | Some band1 \<Rightarrow>
             (let bandFileType = rb_eDataType band1;
                  bandFileSize = GDALGetDataTypeSizeBytes bandFileType;
                  rq = raw_request b nBlockXOff nBlockYOff nRequestXSize nRequestYSize
                         bandFileType bandFileSize
              in if rw_twoBandComplex b \<and> \<not> rw_isNITF b then Inr (rio (rw_poBandFile b) rq img2)
                 else if rw_twoBandComplex b \<and> rw_isNITF b then Inr (rio (rw_poBandFile b) rq img2)
                 else if rw_isComplexData b then Inr (rio (rw_poBandFile b) rq img2)
                 else if bandFileType = rw_eDataType b then Inr (rio (rw_poBandFile b) rq img2)
                 else Inr (CE_Failure, img2)))"

subsection \<open>The calibrated band\<close>









section \<open>The dataset and \<open>Open\<close>\<close>

datatype band = Raw RCMRasterBand | Calib RCMCalibRasterBand

text \<open>
  \<open>RCMDataset\<close>: the members the properties below are about. \<open>ds_papszSubDatasets\<close> is
  a name/value list, empty for the null pointer. \<open>ds_cplErrors\<close> and \<open>ds_cplWarnings\<close>
  are not members of the class: they collect, in order, the errors that band
  construction reported through \<open>CPLError\<close> with \<open>CE_Failure\<close> while the dataset was
  being opened, and the warning (\<open>CE_Warning\<close>) of the geotransform block.
\<close>

datatype open_warning = CornerCoordinatesInconsistent

record RCMDataset =
  ds_nRasterXSize :: int
  ds_nRasterYSize :: int
  ds_isComplexData :: bool
  ds_papoBands :: "band list"
  ds_metadata :: metadata
  ds_papszSubDatasets :: "(string \<times> string) list"
  ds_adfGeoTransform :: "c_double list"
  ds_bHaveGeoTransform :: bool
  ds_m_IncidenceAngleTableSize :: int
  ds_m_nfIncidenceAngleTable :: "c_double list option"
  ds_cplErrors :: "lut_error list"
  ds_cplWarnings :: "open_warning list"


subsection \<open>The subdataset prefix\<close>

definition szLayerCalibration :: string where "szLayerCalibration = ''RCM_CALIB''"
definition szLayerSeparator :: string where "szLayerSeparator = '':''"
definition szSIGMA0 :: string where "szSIGMA0 = ''SIGMA0''"
definition szGAMMA :: string where "szGAMMA = ''GAMMA''"
definition szBETA0 :: string where "szBETA0 = ''BETA0''"
definition szUNCALIB :: string where "szUNCALIB = ''UNCALIB''"

text \<open>
  The path separator of a build that is not for Windows, and the folder of the LUT,
  noise-level and incidence-angle files.
\<close>

definition szPathSeparator :: string where "szPathSeparator = ''/''"
definition CALIBRATION_FOLDER :: string where "CALIBRATION_FOLDER = ''calibration''"

definition GetMetadataProduct :: string where
  "GetMetadataProduct = ''metadata'' @ szPathSeparator @ ''product.xml''"

definition FormatCalibration :: "string option \<Rightarrow> string option \<Rightarrow> string" where
  "FormatCalibration pszCalibName pszFilename =
     (if pszCalibName \<noteq> None \<or> pszFilename \<noteq> None
      then szLayerCalibration
           @ (case pszCalibName of None \<Rightarrow> [] | Some n \<Rightarrow> szLayerSeparator @ n)
           @ (case pszFilename of None \<Rightarrow> [] | Some f \<Rightarrow> szLayerSeparator @ f)
      else szLayerCalibration @ szLayerSeparator)"

text \<open>
  The first lines of \<open>Open\<close> after the call of \<open>Identify\<close>: the calibration selected by
  the file name and the file name that is left once the prefix, the tag and the separator
  after the tag are skipped.
\<close>

definition parse_subdataset :: "string \<Rightarrow> eCalibration \<times> string" where
  "parse_subdataset pszFilename0 =
     (if STARTS_WITH_CI pszFilename0 (FormatCalibration None None)
      then
        (let pszFilename = drop (length szLayerCalibration + 1) pszFilename0;
             eCalib =
               (if STARTS_WITH_CI pszFilename szBETA0 then Beta0
                else if STARTS_WITH_CI pszFilename szSIGMA0 then Sigma0
                else if STARTS_WITH_CI pszFilename szGAMMA \<or> STARTS_WITH_CI pszFilename ''GAMMA0''
                then Gamma
                else if STARTS_WITH_CI pszFilename szUNCALIB then Uncalib
                else NoCalib);
             advanced = dropWhile (\<lambda>c. c \<noteq> CHR '':'') pszFilename
         in (eCalib, (case advanced of [] \<Rightarrow> [] | c # cs \<Rightarrow> cs)))
      else (NoCalib, pszFilename0))"

subsection \<open>The descriptor and the other XML files\<close>

text \<open>
  What \<open>Open\<close> reads from \<open>product.xml\<close>, after \<open>CPLGetXMLValue\<close>, \<open>atoi\<close> and
  \<open>CPLStrtod\<close>. \<open>px_is_product\<close> says whether the root element \<open>product\<close> is there,
  \<open>px_xmlns\<close> is its \<open>xmlns\<close> attribute, and the \<open>has\<close> flags say whether a node that
  \<open>Open\<close> requires is present. \<open>px_ipdf\<close> lists the \<open>ipdf\<close> elements (file name,
  \<open>pole\<close> attribute), \<open>px_noiseLevels\<close> the \<open>noiseLevelFileName\<close> elements (\<open>pole\<close>,
  file name) and \<open>px_lookupTables\<close> the \<open>lookupTableFileName\<close> elements
  (\<open>sarCalibrationType\<close>, \<open>pole\<close>, file name), all in document order.
  \<open>px_positioning\<close> holds the eight corner coordinates when
  \<open>mapProjection.positioningInformation\<close> is present.
\<close>

record Corners =
  tl_x :: c_double
  tl_y :: c_double
  bl_x :: c_double
  bl_y :: c_double
  tr_x :: c_double
  tr_y :: c_double
  br_x :: c_double
  br_y :: c_double

record ProductXml =
  px_is_product :: bool
  px_xmlns :: string
  px_has_sceneAttributes :: bool
  px_has_imageAttributes :: bool
  px_numberOfEntries :: int
  px_has_imageReferenceAttributes :: bool
  px_has_imageGenerationParameters :: bool
  px_samplesPerLine :: int
  px_numLines :: int
  px_productType :: string
  px_sampleType :: string
  px_dataType :: string
  px_bitsPerSample :: int
  px_has_sourceAttributes :: bool
  px_has_radarParameters :: bool
  px_polarizations :: string
  px_ipdf :: "(string \<times> string) list"
  px_incidenceAngleFileName :: string
  px_noiseLevels :: "(string \<times> string) list"
  px_lookupTables :: "(string \<times> string \<times> string) list"
  px_positioning :: "Corners option"

text \<open>
  The incidence-angle file as \<open>Open\<close> reads it: whether the root \<open>incidenceAngles\<close> is
  there, the three numbers and the angle tokens.
\<close>

record IncidenceXml =
  ia_has_root :: bool
  ia_pixelFirstAnglesValue :: int
  ia_stepSize :: int
  ia_numberOfValues :: int
  ia_angles :: "string list"

text \<open>
  A parsed XML file: the driver reads a tree as a descriptor, as a LUT, as noise levels or
  as incidence angles, depending on the file name it parsed; each field is what the
  lookups of that reading return on the tree.
\<close>

record XmlDoc =
  xd_product :: ProductXml
  xd_lut :: LutXml
  xd_noiseLevels :: "RefNoiseLevel list option"
  xd_incidence :: IncidenceXml

text \<open>
  The file system and the framework's file functions as \<open>Open\<close> sees them:
  \<open>VSIStatL\<close> (nothing when it fails, otherwise whether the name is a directory), the
  first bytes of a file as \<open>GDALOpenInfo\<close> holds them, \<open>CPLParseXMLFile\<close>, \<open>GDALOpen\<close>
  on an image file, and the three path functions \<open>CPLFormFilename\<close>,
  \<open>CPLFormCIFilename\<close> (both with a null extension) and \<open>CPLGetPath\<close>.
\<close>

record Env =
  env_VSIStatL :: "string \<Rightarrow> bool option"
  env_header :: "string \<Rightarrow> string option"
  env_CPLParseXMLFile :: "string \<Rightarrow> XmlDoc option"
  env_GDALOpen :: "string \<Rightarrow> GDALDataset option"
  env_CPLFormFilename :: "string \<Rightarrow> string \<Rightarrow> string"
  env_CPLFormCIFilename :: "string \<Rightarrow> string \<Rightarrow> string"
  env_CPLGetPath :: "string \<Rightarrow> string"

text \<open>
  \<open>GDALOpenInfo\<close>, and how the framework fills it for a file name (modelled from the
  framework's documentation): the directory flag from \<open>VSIStatL\<close>, and for a file that
  can be read its first bytes, taken here up to the first NUL.
\<close>

record GDALOpenInfo =
  oi_pszFilename :: string
  oi_bIsDirectory :: bool
  oi_nHeaderBytes :: int
  oi_pabyHeader :: string
  oi_update :: bool

definition GDALOpenInfo_new :: "Env \<Rightarrow> string \<Rightarrow> bool \<Rightarrow> GDALOpenInfo" where
  "GDALOpenInfo_new env pszFilename bUpdate =
     \<lparr> oi_pszFilename = pszFilename,
       oi_bIsDirectory = (env_VSIStatL env pszFilename = Some True),
       oi_nHeaderBytes = (case env_header env pszFilename of None \<Rightarrow> 0 | Some h \<Rightarrow> int (length h)),
       oi_pabyHeader = (case env_header env pszFilename of None \<Rightarrow> [] | Some h \<Rightarrow> h),
       oi_update = bUpdate \<rparr>"

text \<open>
  \<open>IsValidXMLFile\<close>: the file formed from the path and the name parses. (When it does
  not, the source prints the name in an error message after freeing it; the message is
  not kept here.)
\<close>

definition IsValidXMLFile :: "Env \<Rightarrow> string \<Rightarrow> string \<Rightarrow> bool" where
  "IsValidXMLFile env pszPath pszLut =
     (env_CPLParseXMLFile env (env_CPLFormFilename env pszPath pszLut) \<noteq> None)"

text \<open>
  \<open>RCMDataset::Identify\<close>. \<open>identify_product\<close> is the test it makes on a
  \<open>product.xml\<close> found in a directory.
\<close>

definition identify_product :: "Env \<Rightarrow> string \<Rightarrow> bool" where
  "identify_product env osMDFilename =
     (case env_CPLParseXMLFile env osMDFilename of
        None \<Rightarrow> False
      | Some psProduct \<Rightarrow>
          if \<not> px_is_product (xd_product psProduct) then False
          else if \<not> strstr (px_xmlns (xd_product psProduct)) ''rcm'' then False
          else True)"

definition Identify :: "Env \<Rightarrow> GDALOpenInfo \<Rightarrow> bool" where
  "Identify env poOpenInfo =
     (if STARTS_WITH_CI (oi_pszFilename poOpenInfo) (FormatCalibration None None) then True
      else if oi_bIsDirectory poOpenInfo then
        (let osMDFilename = env_CPLFormCIFilename env (oi_pszFilename poOpenInfo) ''product.xml'';
             osMDFilenameMetadata =
               env_CPLFormCIFilename env (oi_pszFilename poOpenInfo) GetMetadataProduct
         in if env_VSIStatL env osMDFilename \<noteq> None then identify_product env osMDFilename
            else if env_VSIStatL env osMDFilenameMetadata \<noteq> None
            then identify_product env osMDFilenameMetadata
            else False)
      else if length (oi_pszFilename poOpenInfo) < 11
              \<or> \<not> EQUAL (drop (length (oi_pszFilename poOpenInfo) - 11) (oi_pszFilename poOpenInfo))
                       ''product.xml''
      then False
      else if oi_nHeaderBytes poOpenInfo < 100 then False
      else if \<not> strstr (oi_pabyHeader poOpenInfo) ''/rcm''
              \<or> \<not> strstr (oi_pabyHeader poOpenInfo) ''<product''
      then False
      else True)"

datatype open_error =
    NotIdentified | ProductParseFailed | UpdateAccess | NoSceneAttributes | NoImageAttributes
  | NotSingleEntry | NoImageReferenceAttributes | NoImageGenerationParameters
  | NonSaneDimensions | UnsupportedConfiguration | NoSourceAttributes | NoRadarParameters
  | NoPolarizations | PolarizationNotFound | InappropriateBandFile

text \<open>
  The result of a step of \<open>Open\<close>: a fault of the C program, a \<open>return NULL\<close> with the
  reason for it, or a value to go on with.
\<close>

datatype 'a outcome = Crashed fault | Rejected open_error | Ok 'a

text \<open>
  The element type chosen from \<open>sampleType\<close> and \<open>bitsPerSample\<close>, together with the
  \<open>isComplexData\<close> flag; \<open>None\<close> is the branch that reports "not a supported
  configuration" and returns null.
\<close>

definition sample_data_type :: "string \<Rightarrow> int \<Rightarrow> (GDALDataType \<times> bool) option" where
  "sample_data_type pszSampleDataType nBitsPerSample =
     (if EQUAL pszSampleDataType ''Complex'' then
        (if nBitsPerSample = 32 then Some (GDT_CFloat32, True)
         else Some (GDT_CInt16, True))
      else if nBitsPerSample = 32 \<and> EQUAL pszSampleDataType ''Magnitude Detected''
      then Some (GDT_Float32, False)
      else if nBitsPerSample = 16 \<and> EQUAL pszSampleDataType ''Magnitude Detected''
      then Some (GDT_UInt16, False)
      else None)"

text \<open>
  The two messages that \<open>Open\<close> prints with \<open>sprintf\<close> into an array of 256
  characters before it returns null: the text has to leave room for the final NUL.
  \<open>decimal_width\<close> is the number of characters \<open>%d\<close> prints for a 32-bit \<open>int\<close>.
\<close>

definition decimal_width :: "int \<Rightarrow> nat" where
  "decimal_width n =
     (if n < 0 then 1 else 0)
     + (if \<bar>n\<bar> < 10 then 1 else if \<bar>n\<bar> < 100 then 2 else if \<bar>n\<bar> < 1000 then 3
        else if \<bar>n\<bar> < 10000 then 4 else if \<bar>n\<bar> < 100000 then 5
        else if \<bar>n\<bar> < 1000000 then 6 else if \<bar>n\<bar> < 10000000 then 7
        else if \<bar>n\<bar> < 100000000 then 8 else if \<bar>n\<bar> < 1000000000 then 9 else 10)"

definition unsupported_message_fits :: "string \<Rightarrow> int \<Rightarrow> bool" where
  "unsupported_message_fits pszDataType nBitsPerSample =
     (length ''ERROR: dataType='' + length pszDataType + length '' and bitsPerSample=''
        + decimal_width nBitsPerSample + length '' are not a supported configuration.'' < 256)"

definition polarization_message_fits :: "string \<Rightarrow> bool" where
  "polarization_message_fits pszPole =
     (length ''ERROR: RCM cannot find the polarization '' + length pszPole
        + length ''. Please contact your data provider for a corrected dataset'' < 256)"

definition can_calib :: "string \<Rightarrow> bool" where
  "can_calib pszProductType =
     (\<not> (STARTS_WITH_CI pszProductType ''UNK'' \<or> STARTS_WITH_CI pszProductType ''GCD''
         \<or> STARTS_WITH_CI pszProductType ''GCC''))"

text \<open>
  \<open>CSLTokenizeString2(s, " ", 0)\<close> gives the non-empty pieces between blanks; the
  \<open>istringstream\<close> loop that counts the polarizations splits at any white space.
\<close>

fun split_at :: "(char \<Rightarrow> bool) \<Rightarrow> string \<Rightarrow> string \<Rightarrow> string list" where
  "split_at sep acc [] = [rev acc]"
| "split_at sep acc (c # cs) =
     (if sep c then rev acc # split_at sep [] cs else split_at sep (c # acc) cs)"

definition tokenize :: "string \<Rightarrow> string list" where
  "tokenize s = filter (\<lambda>t. t \<noteq> []) (split_at (\<lambda>c. c = CHR '' '') [] s)"

definition c_isspace :: "char \<Rightarrow> bool" where
  "c_isspace c = (c = CHR '' '' \<or> c = CHR 0x09 \<or> c = CHR 0x0A \<or> c = CHR 0x0B \<or> c = CHR 0x0C
                  \<or> c = CHR 0x0D)"

definition count_words :: "string \<Rightarrow> int" where
  "count_words s = int (length (filter (\<lambda>t. t \<noteq> []) (split_at c_isspace [] s)))"

definition toupper :: "string \<Rightarrow> string" where
  "toupper s = map c_toupper s"

text \<open>
  The walk over the \<open>ipdf\<close> elements: it stops at the first file name that ends in
  \<open>.NTF\<close>. The state is \<open>(bIsNITF, pszNITF_Filename, imageBandFileCount, list)\<close>, the
  list pairing each upper-cased pole with its file name.
\<close>

definition ends_with_NTF :: "string \<Rightarrow> bool" where
  "ends_with_NTF pszBasedFilename =
     (let u = toupper pszBasedFilename
      in length u > 4 \<and> EQUAL (drop (length u - 4) u) ''.NTF'')"

fun scan_ipdf ::
  "(string \<times> string) list \<Rightarrow> bool \<times> string \<times> int \<times> (string \<times> string) list
     \<Rightarrow> bool \<times> string \<times> int \<times> (string \<times> string) list" where
  "scan_ipdf [] st = st"
| "scan_ipdf ((pszBasedFilename, pszPole) # rest) (bIsNITF, nitf, imageBandFileCount, lst) =
     (if pszBasedFilename = [] then scan_ipdf rest (bIsNITF, nitf, imageBandFileCount, lst)
      else if ends_with_NTF pszBasedFilename
      then (True, pszBasedFilename, imageBandFileCount + 1, lst)
      else if pszPole = []
      then scan_ipdf rest (bIsNITF, nitf, imageBandFileCount + 1, lst)
      else scan_ipdf rest
             (bIsNITF, nitf, imageBandFileCount + 1, lst @ [(toupper pszPole, pszBasedFilename)]))"

text \<open>\<open>CSLSetNameValue\<close>: replace the value of an existing name, or append.\<close>

fun CSLSetNameValue :: "(string \<times> string) list \<Rightarrow> string \<Rightarrow> string \<Rightarrow> (string \<times> string) list" where
  "CSLSetNameValue [] n v = [(n, v)]"
| "CSLSetNameValue ((n', v') # rest) n v =
     (if EQUAL n' n then (n', v) # rest else (n', v') # CSLSetNameValue rest n v)"

text \<open>\<open>imageBandList.FindString(pszPole)\<close> followed by the lookup of the file name.\<close>

fun find_pole :: "(string \<times> string) list \<Rightarrow> string \<Rightarrow> string option" where
  "find_pole [] p = None"
| "find_pole ((pole, file) # rest) p = (if EQUAL pole p then Some file else find_pole rest p)"

text \<open>
  The incidence-angle block. When the file named by \<open>incidenceAngleFileName\<close> parses,
  \<open>Open\<close> reads \<open>psChild\<close> of its root \<open>incidenceAngles\<close> without a test and fills the
  dataset's incidence-angle table; the result is the table size and the table.
\<close>

definition incidence_block ::
  "Env \<Rightarrow> interpolator \<Rightarrow> string \<Rightarrow> string \<Rightarrow> fault + (int \<times> c_double list option)" where
  "incidence_block env IV pszPath pszIncidenceAngleFileName =
     (let osIncidenceAnglePath = CALIBRATION_FOLDER @ szPathSeparator @ pszIncidenceAngleFileName
      in if IsValidXMLFile env pszPath osIncidenceAnglePath then
           (case env_CPLParseXMLFile env (env_CPLFormFilename env pszPath osIncidenceAnglePath) of
              None \<Rightarrow> Inl NullDeref
            | Some psIncidenceAngle \<Rightarrow>
                (let x = xd_incidence psIncidenceAngle;
                     tableSize = wrap32 (c_abs (ia_stepSize x) * c_abs (ia_numberOfValues x))
                 in if \<not> ia_has_root x then Inl NullDeref
                    else Inr (tableSize,
                              Some (IV (ia_angles x) tableSize (ia_stepSize x)
                                      (ia_numberOfValues x) (ia_pixelFirstAnglesValue x)))))
         else Inr (0, None))"

text \<open>
  The state the loop over the polarizations carries from one polarization to the next:
  \<open>eDataType\<close>, the three LUT file names and the noise-level file name, the bands
  attached so far, the metadata, the subdataset list and the reported errors.
\<close>

record OpenState =
  st_eDataType :: GDALDataType
  st_pszBeta0LUT :: "string option"
  st_pszGammaLUT :: "string option"
  st_pszSigma0LUT :: "string option"
  st_pszNoiseLevelsValues :: "string option"
  st_bands :: "band list"
  st_metadata :: metadata
  st_subdatasets :: "(string \<times> string) list"
  st_errors :: "lut_error list"

text \<open>
  The walk over the \<open>noiseLevelFileName\<close> elements for one polarization:
  \<open>noise_entry\<close> is the body of the loop for one element (pole, file name).
\<close>

definition noise_entry ::
  "bool \<Rightarrow> Env \<Rightarrow> string \<Rightarrow> string \<Rightarrow> string \<times> string \<Rightarrow> OpenState \<Rightarrow> OpenState" where
  "noise_entry bCanCalib env pszPath pszPole node st =
     (let pszPoleToMatch = fst node; pszNoiseLevelFile = snd node;
          oNoiseLevelPath = CALIBRATION_FOLDER @ szPathSeparator @ pszNoiseLevelFile
      in if \<not> bCanCalib \<or> pszPoleToMatch = [] \<or> EQUAL pszNoiseLevelFile []
            \<or> pszPole \<noteq> pszPoleToMatch
         then st
         else if IsValidXMLFile env pszPath oNoiseLevelPath
         then st \<lparr> st_pszNoiseLevelsValues := Some oNoiseLevelPath \<rparr>
         else st)"

definition scan_noise ::
  "bool \<Rightarrow> Env \<Rightarrow> string \<Rightarrow> string \<Rightarrow> (string \<times> string) list \<Rightarrow> OpenState \<Rightarrow> OpenState" where
  "scan_noise bCanCalib env pszPath pszPole nodes st =
     fold (noise_entry bCanCalib env pszPath pszPole) nodes st"

text \<open>
  The walk over the \<open>lookupTableFileName\<close> elements for one polarization:
  \<open>lut_entry\<close> is the body of the loop for one element. \<open>lut_found\<close> is what the three
  branches of the body share: the metadata item that lists the LUT files is set, or
  extended through a buffer of 2048 characters into which the old value, a comma and the
  new name are copied, and the subdataset is added. (The extra-files list is left out.)
\<close>

definition add_subdataset ::
  "(string \<times> string) list \<Rightarrow> string \<Rightarrow> string \<Rightarrow> string \<Rightarrow> string \<Rightarrow> (string \<times> string) list" where
  "add_subdataset subs nameKey name descKey desc =
     CSLSetNameValue (CSLSetNameValue subs nameKey name) descKey desc"

definition lut_found ::
  "mdkey \<Rightarrow> string \<Rightarrow> string \<Rightarrow> string \<Rightarrow> string \<Rightarrow> string \<Rightarrow> OpenState \<Rightarrow> OpenState outcome" where
  "lut_found key osCalibPath nameKey name descKey desc st =
     (case st_metadata st key of
        Some (MdText oldLut) \<Rightarrow>
          if length oldLut + 1 + length osCalibPath < 2048
          then Ok (st \<lparr> st_metadata := (st_metadata st)(key \<mapsto> MdText (oldLut @ '','' @ osCalibPath)),
                         st_subdatasets := add_subdataset (st_subdatasets st) nameKey name descKey desc \<rparr>)
          else Crashed OutOfBounds
      | _ \<Rightarrow>
          Ok (st \<lparr> st_metadata := (st_metadata st)(key \<mapsto> MdText osCalibPath),
                    st_subdatasets := add_subdataset (st_subdatasets st) nameKey name descKey desc \<rparr>))"

definition lut_entry ::
  "bool \<Rightarrow> Env \<Rightarrow> string \<Rightarrow> string \<Rightarrow> string \<Rightarrow> string \<times> string \<times> string \<Rightarrow> OpenState
     \<Rightarrow> OpenState outcome" where
  "lut_entry bCanCalib env osMDFilename pszPath pszPole node st =
     (let pszLUTType = fst node; pszPoleToMatch = fst (snd node); pszLUTFile = snd (snd node);
          osCalibPath = CALIBRATION_FOLDER @ szPathSeparator @ pszLUTFile
      in if \<not> bCanCalib \<or> pszPoleToMatch = [] \<or> pszLUTType = [] \<or> pszPole \<noteq> pszPoleToMatch
         then Ok st
         else if EQUAL pszLUTType ''Beta Nought'' \<and> IsValidXMLFile env pszPath osCalibPath
         then lut_found BETA_NOUGHT_LUT osCalibPath ''SUBDATASET_3_NAME''
                (FormatCalibration (Some szBETA0) (Some osMDFilename))
                ''SUBDATASET_3_DESC'' ''Beta Nought calibrated''
                (st \<lparr> st_pszBeta0LUT := Some osCalibPath \<rparr>)
         else if EQUAL pszLUTType ''Sigma Nought'' \<and> IsValidXMLFile env pszPath osCalibPath
         then lut_found SIGMA_NOUGHT_LUT osCalibPath ''SUBDATASET_2_NAME''
                (FormatCalibration (Some szSIGMA0) (Some osMDFilename))
                ''SUBDATASET_2_DESC'' ''Sigma Nought calibrated''
                (st \<lparr> st_pszSigma0LUT := Some osCalibPath \<rparr>)
         else if EQUAL pszLUTType ''Gamma'' \<and> IsValidXMLFile env pszPath osCalibPath
         then lut_found GAMMA_LUT osCalibPath ''SUBDATASET_4_NAME''
                (FormatCalibration (Some szGAMMA) (Some osMDFilename))
                ''SUBDATASET_4_DESC'' ''Gamma calibrated''
                (st \<lparr> st_pszGammaLUT := Some osCalibPath \<rparr>)
         else Ok st)"

fun scan_luts ::
  "bool \<Rightarrow> Env \<Rightarrow> string \<Rightarrow> string \<Rightarrow> string \<Rightarrow> (string \<times> string \<times> string) list \<Rightarrow> OpenState
     \<Rightarrow> OpenState outcome" where
  "scan_luts bCanCalib env osMDFilename pszPath pszPole [] st = Ok st"
| "scan_luts bCanCalib env osMDFilename pszPath pszPole (node # nodes) st =
     (case lut_entry bCanCalib env osMDFilename pszPath pszPole node st of
        Crashed e \<Rightarrow> Crashed e
      | Rejected e \<Rightarrow> Rejected e
      | Ok st' \<Rightarrow> scan_luts bCanCalib env osMDFilename pszPath pszPole nodes st')"

text \<open>
  The constructor of the raw band followed by \<open>SetBand\<close>. \<open>poBand\<close> is band 1 of the
  file, or band \<open>nBandIn\<close> when the file holds all polarizations; its block size becomes
  the band's.
\<close>

definition RCMRasterBand_new ::
  "int \<Rightarrow> int \<Rightarrow> bool \<Rightarrow> int \<Rightarrow> GDALDataType \<Rightarrow> GDALDataset \<Rightarrow> bool \<Rightarrow> bool \<Rightarrow> bool
     \<Rightarrow> fault + RCMRasterBand" where
  "RCMRasterBand_new nRasterXSize nRasterYSize isComplexData nBandIn eDataTypeIn poBandFile
       bTwoBandComplex isOneFilePerPol isNITF =
     (case GetRasterBand poBandFile (if isOneFilePerPol then 1 else nBandIn) of
        None \<Rightarrow> Inl NullDeref
      | Some poBand \<Rightarrow>
          Inr \<lparr> rw_poBandFile = poBandFile,
                rw_m_eCalib = Uncalib,
                rw_nBand = nBandIn,
                rw_eDataType = eDataTypeIn,
                rw_twoBandComplex = bTwoBandComplex,
                rw_isOneFilePerPol = isOneFilePerPol,
                rw_isNITF = isNITF,
                rw_isComplexData = isComplexData,
                rw_nBlockXSize = rb_nBlockXSize poBand,
                rw_nBlockYSize = rb_nBlockYSize poBand,
                rw_nRasterXSize = nRasterXSize,
                rw_nRasterYSize = nRasterYSize \<rparr>)"

text \<open>
  What is the same for every polarization of one \<open>Open\<close> call.
\<close>

record OpenCtx =
  cx_env :: Env
  cx_IV :: interpolator
  cx_osMDFilename :: string
  cx_pszPath :: string
  cx_eCalib :: eCalibration
  cx_bCanCalib :: bool
  cx_noiseLevels :: "(string \<times> string) list"
  cx_lookupTables :: "(string \<times> string \<times> string) list"
  cx_bIsNITF :: bool
  cx_pszNITF_Filename :: string
  cx_imageBandList :: "(string \<times> string) list"
  cx_isOneFilePerPol :: bool
  cx_isComplexData :: bool
  cx_nRasterXSize :: int
  cx_nRasterYSize :: int

text \<open>
  The end of one turn of the loop over the polarizations: the band is built and
  attached. \<open>b\<close> is the mapping the prober returned. The names of the LUT file and of the
  noise-level file that are handed to the calibrated band go through
  \<open>CPLFormFilename\<close>, which reads them: a null name is a fault. When \<open>ReadLUT\<close> reports
  an error the band is attached all the same.
\<close>

definition selected_lut :: "eCalibration \<Rightarrow> OpenState \<Rightarrow> string option" where
  "selected_lut eCalib st =
     (case eCalib of
        Sigma0 \<Rightarrow> st_pszSigma0LUT st
      | Beta0 \<Rightarrow> st_pszBeta0LUT st
      | Gamma \<Rightarrow> st_pszGammaLUT st
      | _ \<Rightarrow> st_pszSigma0LUT st)"

definition create_band ::
  "OpenCtx \<Rightarrow> GDALDataset \<Rightarrow> GDALDataType \<Rightarrow> BandMappingRCM \<Rightarrow> OpenState \<Rightarrow> OpenState outcome" where
  "create_band cx poBandFile eDataType b st =
     (let bandNum = int (length (st_bands st)) + 1
      in if cx_eCalib cx = NoCalib \<or> cx_eCalib cx = Uncalib then
           (case RCMRasterBand_new (cx_nRasterXSize cx) (cx_nRasterYSize cx)
                   (cx_isComplexData cx) bandNum eDataType poBandFile
                   (b = TWOBANDCOMPLEX) (cx_isOneFilePerPol cx) (cx_bIsNITF cx) of
              Inl e \<Rightarrow> Crashed e
            | Inr poBand \<Rightarrow> Ok (st \<lparr> st_bands := st_bands st @ [Raw poBand] \<rparr>))
         else
           (case (selected_lut (cx_eCalib cx) st, st_pszNoiseLevelsValues st) of
              (Some pszLUT, Some pszNoiseLevelsValues) \<Rightarrow>
                (let lutFile = env_CPLFormFilename (cx_env cx) (cx_pszPath cx) pszLUT;
                     noiseFile = env_CPLFormFilename (cx_env cx) (cx_pszPath cx)
                                   pszNoiseLevelsValues
                 in case RCMCalibRasterBand_new (cx_IV cx) (int (length (st_bands st)))
                           (st_metadata st)
                           (if cx_isComplexData cx then GDT_Float32 else eDataType)
                           poBandFile (cx_eCalib cx)
                           (Some lutFile)
                           (map_option xd_lut (env_CPLParseXMLFile (cx_env cx) lutFile))
                           (Some noiseFile)
                           (case env_CPLParseXMLFile (cx_env cx) noiseFile of
                              None \<Rightarrow> None
                            | Some d \<Rightarrow> xd_noiseLevels d)
                           eDataType of
                      Inl e \<Rightarrow> Crashed e
                    | Inr r \<Rightarrow>
                        Ok (st \<lparr> st_bands := st_bands st @
                                   [Calib ((fst r) \<lparr> cb_nBand := bandNum,
                                                    cb_nRasterXSize := cx_nRasterXSize cx,
                                                    cb_nRasterYSize := cx_nRasterYSize cx \<rparr>)],
                                 st_metadata := fst (snd r),
                                 st_errors := st_errors st @
                                   (case snd (snd r) of None \<Rightarrow> [] | Some e \<Rightarrow> [e]) \<rparr>))
            | _ \<Rightarrow> Crashed NullDeref))"

text \<open>
  One turn of the loop over the polarizations: the two walks over the descriptor, the
  choice of the image file, \<open>GDALOpen\<close>, the prober and the band. When the polarization
  has no image file, the source prints the polarization into an array of 256 characters,
  frees the two string lists with \<open>CPLFree\<close> and returns null; the lists are freed a
  second time when they go out of scope, which is a fault unless they are empty. In the
  image file name a backslash is replaced by the path separator. A file that does not
  open, or has no band, skips the polarization. A first band of type CFloat32 overrides
  \<open>eDataType\<close>, for this polarization and the following ones.
\<close>

definition open_pole :: "OpenCtx \<Rightarrow> string \<Rightarrow> OpenState \<Rightarrow> OpenState outcome" where
  "open_pole cx pszPole st0 =
     (case scan_luts (cx_bCanCalib cx) (cx_env cx) (cx_osMDFilename cx) (cx_pszPath cx) pszPole
             (cx_lookupTables cx)
             (scan_noise (cx_bCanCalib cx) (cx_env cx) (cx_pszPath cx) pszPole
                (cx_noiseLevels cx) st0) of
        Crashed e \<Rightarrow> Crashed e
      | Rejected e \<Rightarrow> Rejected e
      | Ok st \<Rightarrow>
     (let pszBasedFilename =
            (if cx_bIsNITF cx then Some (cx_pszNITF_Filename cx)
             else find_pole (cx_imageBandList cx) pszPole)
      in case pszBasedFilename of
           None \<Rightarrow>
             if \<not> polarization_message_fits pszPole then Crashed OutOfBounds
             else if cx_imageBandList cx \<noteq> [] then Crashed BadFree
             else Rejected PolarizationNotFound
         | Some name \<Rightarrow>
             (let pszBasename = map (\<lambda>c. if c = CHR 0x5C then CHR ''/'' else c) name;
                  pszFullname = env_CPLFormFilename (cx_env cx) (cx_pszPath cx) pszBasename
              in case env_GDALOpen (cx_env cx) pszFullname of
                None \<Rightarrow> Ok st
              | Some poBandFile \<Rightarrow>
                  (case GetRasterBand poBandFile 1 of
                     None \<Rightarrow> Ok st
                   | Some band1 \<Rightarrow>
                       (let eDataType = (if rb_eDataType band1 = GDT_CFloat32 then GDT_CFloat32
                                         else st_eDataType st);
                            st1 = st \<lparr> st_eDataType := eDataType \<rparr>
                        in case checkBandFileMappingRCM eDataType poBandFile (cx_bIsNITF cx) of
                             Inl e \<Rightarrow> Crashed e
                           | Inr b \<Rightarrow>
                               if b = BANDERROR then Rejected InappropriateBandFile
                               else create_band cx poBandFile eDataType b st1)))))"

fun open_poles :: "OpenCtx \<Rightarrow> string list \<Rightarrow> OpenState \<Rightarrow> OpenState outcome" where
  "open_poles cx [] st = Ok st"
| "open_poles cx (p # ps) st =
     (case open_pole cx (toupper p) st of
        Crashed e \<Rightarrow> Crashed e
      | Rejected e \<Rightarrow> Rejected e
      | Ok st' \<Rightarrow> open_poles cx ps st')"

text \<open>The subdataset list once the loop is over.\<close>

definition finish_subdatasets :: "eCalibration \<Rightarrow> string \<Rightarrow> (string \<times> string) list \<Rightarrow> (string \<times> string) list" where
  "finish_subdatasets eCalib osMDFilename papszSubDatasets =
     (if papszSubDatasets \<noteq> [] \<and> eCalib = NoCalib
      then CSLSetNameValue
             (CSLSetNameValue papszSubDatasets ''SUBDATASET_1_NAME''
                (FormatCalibration (Some szUNCALIB) (Some osMDFilename)))
             ''SUBDATASET_1_DESC'' ''Uncalibrated digital numbers''
      else [])"

text \<open>
  The geotransform block, in the \<open>double\<close> arithmetic of the source. The six
  coefficients are computed from the upper-left, upper-right and lower-left corners; the
  lower-right corner is predicted from them and compared with the one in the descriptor.
  The result is the coefficient array, the \<open>bHaveGeoTransform\<close> flag and the warning, if
  any; on a mismatch the source reports the warning and leaves the flag as the
  constructor set it.
\<close>

definition geotransform_of :: "int \<Rightarrow> int \<Rightarrow> Corners \<Rightarrow> c_double list" where
  "geotransform_of nRasterXSize nRasterYSize c =
     (let g1 = fp_div dbl (fp_sub dbl (tr_x c) (tl_x c)) (int_to_double (nRasterXSize - 1));
          g4 = fp_div dbl (fp_sub dbl (tr_y c) (tl_y c)) (int_to_double (nRasterXSize - 1));
          g2 = fp_div dbl (fp_sub dbl (bl_x c) (tl_x c)) (int_to_double (nRasterYSize - 1));
          g5 = fp_div dbl (fp_sub dbl (bl_y c) (tl_y c)) (int_to_double (nRasterYSize - 1));
          g0 = fp_sub dbl (fp_sub dbl (tl_x c) (fp_mul dbl (Finite 0.5) g1))
                 (fp_mul dbl (Finite 0.5) g2);
          g3 = fp_sub dbl (fp_sub dbl (tl_y c) (fp_mul dbl (Finite 0.5) g4))
                 (fp_mul dbl (Finite 0.5) g5)
      in [g0, g1, g2, g3, g4, g5])"

definition corner_mismatch :: "int \<Rightarrow> int \<Rightarrow> Corners \<Rightarrow> bool" where
  "corner_mismatch nRasterXSize nRasterYSize c =
     (let g = geotransform_of nRasterXSize nRasterYSize c;
          xs = fp_sub dbl (int_to_double nRasterXSize) (Finite 0.5);
          ys = fp_sub dbl (int_to_double nRasterYSize) (Finite 0.5);
          testx = fp_add dbl (fp_add dbl (g ! 0) (fp_mul dbl (g ! 1) xs)) (fp_mul dbl (g ! 2) ys);
          testy = fp_add dbl (fp_add dbl (g ! 3) (fp_mul dbl (g ! 4) xs)) (fp_mul dbl (g ! 5) ys)
      in fp_gt (fp_abs (fp_sub dbl testx (br_x c)))
               (fp_abs (fp_mul dbl (Finite 0.25) (fp_add dbl (g ! 1) (g ! 2))))
         \<or> fp_gt (fp_abs (fp_sub dbl testy (br_y c)))
                  (fp_abs (fp_mul dbl (Finite 0.25) (fp_add dbl (g ! 4) (g ! 5)))))"

definition open_geotransform ::
  "int \<Rightarrow> int \<Rightarrow> Corners option \<Rightarrow> c_double list \<times> bool \<times> open_warning list" where
  "open_geotransform nRasterXSize nRasterYSize psPos =
     (case psPos of
        None \<Rightarrow> ([Finite 0, Finite 1, Finite 0, Finite 0, Finite 0, Finite 1], False, [])
      | Some c \<Rightarrow>
          if corner_mismatch nRasterXSize nRasterYSize c
          then (geotransform_of nRasterXSize nRasterYSize c, False,
                [CornerCoordinatesInconsistent])
          else (geotransform_of nRasterXSize nRasterYSize c, True, []))"

text \<open>
  What \<open>Open\<close> has fixed when the loop over the polarizations starts, and the state
  the loop starts from.
\<close>

definition open_context ::
  "Env \<Rightarrow> interpolator \<Rightarrow> eCalibration \<Rightarrow> string \<Rightarrow> ProductXml \<Rightarrow> bool \<Rightarrow> OpenCtx" where
  "open_context env IV eCalib osMDFilename px isComplexData =
     (let imageBandCount = count_words (px_polarizations px);
          sc = scan_ipdf (px_ipdf px) (False, [], 0, [])
      in \<lparr> cx_env = env, cx_IV = IV,
           cx_osMDFilename = osMDFilename,
           cx_pszPath = env_CPLGetPath env osMDFilename,
           cx_eCalib = eCalib,
           cx_bCanCalib = can_calib (px_productType px),
           cx_noiseLevels = px_noiseLevels px,
           cx_lookupTables = px_lookupTables px,
           cx_bIsNITF = fst sc,
           cx_pszNITF_Filename = fst (snd sc),
           cx_imageBandList = snd (snd (snd sc)),
           cx_isOneFilePerPol = (imageBandCount = fst (snd (snd sc))),
           cx_isComplexData = isComplexData,
           cx_nRasterXSize = px_samplesPerLine px,
           cx_nRasterYSize = px_numLines px \<rparr>)"

definition initial_state :: "GDALDataType \<Rightarrow> OpenState" where
  "initial_state eDataType =
     \<lparr> st_eDataType = eDataType,
       st_pszBeta0LUT = None, st_pszGammaLUT = None, st_pszSigma0LUT = None,
       st_pszNoiseLevelsValues = None,
       st_bands = [], st_metadata = Map.empty, st_subdatasets = [], st_errors = [] \<rparr>"

text \<open>
  \<open>Open\<close> from the parsed descriptor on: the checks of the descriptor, the element
  type, the incidence-angle block, the loop over the polarizations, the subdataset list
  and the geotransform. (The metadata items copied from the descriptor and the
  projection, GCP and RPC blocks, none of which returns, are left out.) \<open>bUpdate\<close> is
  \<open>eAccess == GA_Update\<close>.
\<close>

definition open_document ::
  "Env \<Rightarrow> interpolator \<Rightarrow> eCalibration \<Rightarrow> string \<Rightarrow> ProductXml \<Rightarrow> bool \<Rightarrow> RCMDataset outcome" where
  "open_document env IV eCalib osMDFilename px bUpdate =
     (if bUpdate then Rejected UpdateAccess
      else if \<not> px_has_sceneAttributes px then Rejected NoSceneAttributes
      else if \<not> px_has_imageAttributes px then Rejected NoImageAttributes
      else if px_numberOfEntries px \<noteq> 1 then Rejected NotSingleEntry
      else if \<not> px_has_imageReferenceAttributes px then Rejected NoImageReferenceAttributes
      else if \<not> px_has_imageGenerationParameters px
      then Rejected NoImageGenerationParameters
      else if px_samplesPerLine px \<le> 1 \<or> px_numLines px \<le> 1
      then Rejected NonSaneDimensions
      else
        (case sample_data_type (px_sampleType px) (px_bitsPerSample px) of
           None \<Rightarrow>
             if unsupported_message_fits (px_dataType px) (px_bitsPerSample px)
             then Rejected UnsupportedConfiguration
             else Crashed OutOfBounds
         | Some dt \<Rightarrow>
             if \<not> px_has_sourceAttributes px then Rejected NoSourceAttributes
             else if \<not> px_has_radarParameters px then Rejected NoRadarParameters
             else if px_polarizations px = [] then Rejected NoPolarizations
             else
               (case incidence_block env IV (env_CPLGetPath env osMDFilename)
                       (px_incidenceAngleFileName px) of
                  Inl e \<Rightarrow> Crashed e
                | Inr inc \<Rightarrow>
                    (case open_poles (open_context env IV eCalib osMDFilename px (snd dt))
                            (tokenize (px_polarizations px)) (initial_state (fst dt)) of
                       Crashed e \<Rightarrow> Crashed e
                     | Rejected e \<Rightarrow> Rejected e
                     | Ok st \<Rightarrow>
                         (let gt = open_geotransform (px_samplesPerLine px) (px_numLines px)
                                     (px_positioning px)
                          in Ok \<lparr> ds_nRasterXSize = px_samplesPerLine px,
                                   ds_nRasterYSize = px_numLines px,
                                   ds_isComplexData = snd dt,
                                   ds_papoBands = st_bands st,
                                   ds_metadata = st_metadata st,
                                   ds_papszSubDatasets =
                                     finish_subdatasets eCalib osMDFilename (st_subdatasets st),
                                   ds_adfGeoTransform = fst gt,
                                   ds_bHaveGeoTransform = fst (snd gt),
                                   ds_m_IncidenceAngleTableSize = fst inc,
                                   ds_m_nfIncidenceAngleTable = snd inc,
                                   ds_cplErrors = st_errors st,
                                   ds_cplWarnings = snd (snd gt) \<rparr>)))))"

text \<open>
  The descriptor that \<open>Open\<close> parses for an open request: after the prefix, if there
  is one, the directory test is made again on the file name that is left (the flag of the
  request stays when \<open>VSIStatL\<close> fails); in a directory the descriptor is
  \<open>product.xml\<close>, or \<open>metadata/product.xml\<close> when the former is not there.
\<close>

definition descriptor_name :: "Env \<Rightarrow> GDALOpenInfo \<Rightarrow> string" where
  "descriptor_name env poOpenInfo =
     (let pszFilename = snd (parse_subdataset (oi_pszFilename poOpenInfo));
          bIsDirectory =
            (if STARTS_WITH_CI (oi_pszFilename poOpenInfo) (FormatCalibration None None)
             then (case env_VSIStatL env pszFilename of
                     Some d \<Rightarrow> d
                   | None \<Rightarrow> oi_bIsDirectory poOpenInfo)
             else oi_bIsDirectory poOpenInfo)
      in if bIsDirectory then
           (if env_VSIStatL env (env_CPLFormCIFilename env pszFilename ''product.xml'') \<noteq> None
            then env_CPLFormCIFilename env pszFilename ''product.xml''
            else env_CPLFormCIFilename env pszFilename GetMetadataProduct)
         else pszFilename)"

text \<open>
  \<open>RCMDataset::Open\<close>: \<open>Identify\<close>, the subdataset prefix, the descriptor and the
  rest. \<open>Open\<close> is the same from a file name and an access mode, through the
  \<open>GDALOpenInfo\<close> the framework builds for them.
\<close>

definition RCMDataset_Open :: "Env \<Rightarrow> interpolator \<Rightarrow> GDALOpenInfo \<Rightarrow> RCMDataset outcome" where
  "RCMDataset_Open env IV poOpenInfo =
     (if \<not> Identify env poOpenInfo then Rejected NotIdentified
      else
        (let eCalib = fst (parse_subdataset (oi_pszFilename poOpenInfo));
             osMDFilename = descriptor_name env poOpenInfo
         in case env_CPLParseXMLFile env osMDFilename of
              None \<Rightarrow> Rejected ProductParseFailed
            | Some psProduct \<Rightarrow>
                open_document env IV eCalib osMDFilename (xd_product psProduct)
                  (oi_update poOpenInfo)))"

definition Open :: "Env \<Rightarrow> interpolator \<Rightarrow> string \<Rightarrow> bool \<Rightarrow> RCMDataset outcome" where
  "Open env IV pszFilename bUpdate =
     RCMDataset_Open env IV (GDALOpenInfo_new env pszFilename bUpdate)"

section \<open>A small product, for concrete runs\<close>

text \<open>
  A file system for the examples: path functions for relative names with \<open>/\<close> as the
  separator, and the first bytes of a descriptor of an RCM product.
\<close>

definition demo_CPLFormFilename :: "string \<Rightarrow> string \<Rightarrow> string" where
  "demo_CPLFormFilename pszPath pszBasename =
     (if pszPath = [] then pszBasename else pszPath @ ''/'' @ pszBasename)"

definition demo_CPLGetPath :: "string \<Rightarrow> string" where
  "demo_CPLGetPath pszFilename =
     (case dropWhile (\<lambda>c. c \<noteq> CHR ''/'') (rev pszFilename) of
        [] \<Rightarrow> []
      | c # cs \<Rightarrow> rev cs)"

definition demo_header :: string where
  "demo_header =
     ''<?xml version='1.0' encoding='UTF-8'?><product xmlns='http://www.asc-csa.gc.ca/dataproducts/schema/rcm' copyright='(c) demo'>''"

text \<open>
  A single-polarization product of 4 x 4 pixels: \<open>product.xml\<close> names the image file
  \<open>hh.tif\<close> for the pole \<open>HH\<close>, the Sigma Nought LUT file \<open>lutSigma.xml\<close> and the
  noise-level file \<open>noise.xml\<close>, both in the folder \<open>calibration\<close>. The sample type, the
  bits per sample, the band types of the image file and the content of the LUT file are
  left open. The stand-in for \<open>InterpolateValues\<close> fills the table with the constant 5.
\<close>

definition demo_px :: "string \<Rightarrow> int \<Rightarrow> ProductXml" where
  "demo_px sampleType bits =
     \<lparr> px_is_product = True,
       px_xmlns = ''http://www.asc-csa.gc.ca/dataproducts/schema/rcm'',
       px_has_sceneAttributes = True,
       px_has_imageAttributes = True,
       px_numberOfEntries = 1,
       px_has_imageReferenceAttributes = True,
       px_has_imageGenerationParameters = True,
       px_samplesPerLine = 4,
       px_numLines = 4,
       px_productType = ''SLC'',
       px_sampleType = sampleType,
       px_dataType = ''Integer'',
       px_bitsPerSample = bits,
       px_has_sourceAttributes = True,
       px_has_radarParameters = True,
       px_polarizations = ''HH'',
       px_ipdf = [(''hh.tif'', ''HH'')],
       px_incidenceAngleFileName = [],
       px_noiseLevels = [(''HH'', ''noise.xml'')],
       px_lookupTables = [(''Sigma Nought'', ''HH'', ''lutSigma.xml'')],
       px_positioning = None \<rparr>"

definition demo_lut :: "int \<Rightarrow> int \<Rightarrow> LutXml" where
  "demo_lut step n =
     \<lparr> lx_offset = Finite 0, lx_pixelFirstLutValue = 0, lx_stepSize = step,
       lx_numberOfValues = n, lx_gains = [] \<rparr>"

text \<open>
  The documents of the examples: each is read in one way only; the other readings of
  the same tree find none of their nodes.
\<close>

definition no_product :: ProductXml where
  "no_product =
     \<lparr> px_is_product = False, px_xmlns = [],
       px_has_sceneAttributes = False, px_has_imageAttributes = False,
       px_numberOfEntries = 0,
       px_has_imageReferenceAttributes = False, px_has_imageGenerationParameters = False,
       px_samplesPerLine = - 1, px_numLines = - 1,
       px_productType = ''UNK'', px_sampleType = [], px_dataType = [], px_bitsPerSample = 0,
       px_has_sourceAttributes = False, px_has_radarParameters = False,
       px_polarizations = [], px_ipdf = [], px_incidenceAngleFileName = [],
       px_noiseLevels = [], px_lookupTables = [], px_positioning = None \<rparr>"

definition no_incidence :: IncidenceXml where
  "no_incidence =
     \<lparr> ia_has_root = False, ia_pixelFirstAnglesValue = 0, ia_stepSize = 0,
       ia_numberOfValues = 0, ia_angles = [] \<rparr>"

definition product_doc :: "ProductXml \<Rightarrow> XmlDoc" where
  "product_doc px =
     \<lparr> xd_product = px, xd_lut = lut_values None, xd_noiseLevels = None,
       xd_incidence = no_incidence \<rparr>"

definition lut_doc :: "LutXml \<Rightarrow> XmlDoc" where
  "lut_doc lx =
     \<lparr> xd_product = no_product, xd_lut = lx, xd_noiseLevels = None,
       xd_incidence = no_incidence \<rparr>"

definition noise_doc :: "RefNoiseLevel list \<Rightarrow> XmlDoc" where
  "noise_doc ns =
     \<lparr> xd_product = no_product, xd_lut = lut_values None, xd_noiseLevels = Some ns,
       xd_incidence = no_incidence \<rparr>"

definition demo_files :: "ProductXml \<Rightarrow> string \<Rightarrow> GDALDataset \<Rightarrow> LutXml \<Rightarrow> Env" where
  "demo_files px imageName imageFile lx =
     \<lparr> env_VSIStatL = (\<lambda>p. if p = ''product.xml'' then Some False else None),
       env_header = (\<lambda>p. if p = ''product.xml'' then Some demo_header else None),
       env_CPLParseXMLFile =
         (\<lambda>p. if p = ''product.xml'' then Some (product_doc px)
               else if p = ''calibration/lutSigma.xml'' then Some (lut_doc lx)
               else if p = ''calibration/noise.xml'' then Some (noise_doc [])
               else None),
       env_GDALOpen = (\<lambda>n. if n = imageName then Some imageFile else None),
       env_CPLFormFilename = demo_CPLFormFilename,
       env_CPLFormCIFilename = demo_CPLFormFilename,
       env_CPLGetPath = demo_CPLGetPath \<rparr>"

definition demo_env :: "string \<Rightarrow> int \<Rightarrow> GDALDataType list \<Rightarrow> LutXml \<Rightarrow> Env" where
  "demo_env sampleType bits types lx =
     demo_files (demo_px sampleType bits) ''hh.tif'' (file_of_types types 4) lx"

definition demo_IV :: interpolator where
  "demo_IV gains tableSize stepSize numberOfValues pixelFirstLutValue =
     replicate (nat tableSize) (Finite 5)"

text \<open>What a caller can ask of a band of either kind.\<close>

definition band_eDataType :: "band \<Rightarrow> GDALDataType" where
  "band_eDataType b = (case b of Raw r \<Rightarrow> rw_eDataType r | Calib c \<Rightarrow> cb_eDataType c)"




text \<open>The element type of the first band of an image file, if it has one.\<close>

definition first_band_type :: "GDALDataset \<Rightarrow> GDALDataType option" where
  "first_band_type f = map_option rb_eDataType (GetRasterBand f 1)"





section \<open>Blocks and their cells\<close>

text \<open>
  A stand-in for the framework's \<open>RasterIO\<close> in the examples (modelled from the
  framework's documentation). The buffer is counted in cells of \<open>cellBytes\<close> bytes;
  \<open>px t n x y\<close> is pixel \<open>(x, y)\<close> of band \<open>n\<close> of the file converted to the buffer
  type \<open>t\<close>, as the list of the cells it fills. A call for more bands than the file has
  fails and writes nothing. Otherwise the bands asked for are written one after the
  other, pixel \<open>(j, i)\<close> of the window of the \<open>k\<close>-th of them from byte
  \<open>k * nBandSpace + i * nLineSpace + j * nPixelSpace\<close> of the buffer on; a spacing given
  as 0 is the packed one.
\<close>

fun put_cells :: "int \<Rightarrow> 'v list \<Rightarrow> 'v buffer \<Rightarrow> 'v buffer" where
  "put_cells k [] buf = buf"
| "put_cells k (v # vs) buf = put_cells (k + 1) vs (buf(k := v))"

fun repeat :: "nat \<Rightarrow> int \<Rightarrow> (int \<Rightarrow> 's \<Rightarrow> 's) \<Rightarrow> 's \<Rightarrow> 's" where
  "repeat 0 i body s = s"
| "repeat (Suc n) i body s = repeat n (i + 1) body (body i s)"

definition RasterIO_cells ::
  "int \<Rightarrow> (GDALDataType \<Rightarrow> int \<Rightarrow> int \<Rightarrow> int \<Rightarrow> 'v list) \<Rightarrow> 'v raster_io" where
  "RasterIO_cells cellBytes px ds rq buf =
     (let first = (case rq_band rq of Some n \<Rightarrow> n | None \<Rightarrow> 1);
          count = (case rq_band rq of Some n \<Rightarrow> 1 | None \<Rightarrow> rq_nBandCount rq);
          pixelSpace = (if rq_nPixelSpace rq = 0 then GDALGetDataTypeSizeBytes (rq_eBufType rq)
                        else rq_nPixelSpace rq);
          lineSpace = (if rq_nLineSpace rq = 0 then pixelSpace * rq_nBufXSize rq
                       else rq_nLineSpace rq);
          bandSpace = (if rq_nBandSpace rq = 0 then lineSpace * rq_nBufYSize rq
                       else rq_nBandSpace rq)
      in if first < 1 \<or> GetRasterCount ds < first + count - 1 then (CE_Failure, buf)
         else
           (CE_None,
            repeat (nat count) 0
              (\<lambda>k. repeat (nat (rq_nYSize rq)) 0
                 (\<lambda>i. repeat (nat (rq_nXSize rq)) 0
                    (\<lambda>j. put_cells ((k * bandSpace + i * lineSpace + j * pixelSpace) div cellBytes)
                           (px (rq_eBufType rq) (first + k) (rq_nXOff rq + j) (rq_nYOff rq + i)))))
              buf))"

text \<open>
  A file whose bands have the given element types and blocks of 2 by 2 pixels.
\<close>

definition file_of_blocks :: "GDALDataType list \<Rightarrow> int \<Rightarrow> GDALDataset" where
  "file_of_blocks ts w =
     \<lparr> gd_bands = map (\<lambda>t. \<lparr> rb_eDataType = t, rb_nBlockXSize = 2, rb_nBlockYSize = 2 \<rparr>) ts,
       gd_nRasterXSize = w \<rparr>"

text \<open>
  A complex product of 3 by 3 pixels with four polarizations in one NITF file of four
  CFloat32 bands, and a picture for it: the pixel \<open>(x, y)\<close> of band \<open>n\<close> is the number
  \<open>100 * n + 10 * x + y\<close>.
\<close>

definition nitf_px :: ProductXml where
  "nitf_px =
     (demo_px ''Complex'' 32)
       \<lparr> px_samplesPerLine := 3, px_numLines := 3,
         px_polarizations := ''HH HV VH VV'',
         px_ipdf := [(''image.ntf'', [])],
         px_noiseLevels := [], px_lookupTables := [] \<rparr>"

definition nitf_env :: Env where
  "nitf_env =
     demo_files nitf_px ''image.ntf''
       (file_of_blocks [GDT_CFloat32, GDT_CFloat32, GDT_CFloat32, GDT_CFloat32] 3)
       (demo_lut 1 4)"

definition nitf_picture :: "GDALDataType \<Rightarrow> int \<Rightarrow> int \<Rightarrow> int \<Rightarrow> int list" where
  "nitf_picture t n x y = [100 * n + 10 * x + y]"



section \<open>The rules of the prober, in the words of the specification\<close>

text \<open>
  The Straight rule: the file exposes one band, or four, and the element type of its
  first band is the requested one. The two TwoBandComplex rules: the file exposes two
  bands of one element type, which is the real type that pairs up to the requested complex
  type, or is the requested complex type itself. \<open>spec_unequal_pair\<close> is the case that
  the source rejects by a test of its own: two bands of unequal element types under a
  complex requested type.
\<close>

definition spec_straight_rule :: "GDALDataType \<Rightarrow> GDALDataset \<Rightarrow> bool" where
  "spec_straight_rule dt f =
     ((GetRasterCount f = 1 \<or> GetRasterCount f = 4) \<and> first_band_type f = Some dt)"

definition spec_real_pair_rule :: "GDALDataType \<Rightarrow> GDALDataset \<Rightarrow> bool" where
  "spec_real_pair_rule dt f =
     (case map rb_eDataType (gd_bands f) of
        [t, t'] \<Rightarrow> t = t' \<and> (dt, t) \<in> {(GDT_CInt16, GDT_Int16), (GDT_CInt32, GDT_Int32),
                                       (GDT_CFloat32, GDT_Float32), (GDT_CFloat64, GDT_Float64)}
      | _ \<Rightarrow> False)"

definition spec_complex_pair_rule :: "GDALDataType \<Rightarrow> GDALDataset \<Rightarrow> bool" where
  "spec_complex_pair_rule dt f =
     (case map rb_eDataType (gd_bands f) of
        [t, t'] \<Rightarrow> t = t' \<and> t = dt \<and> GDALDataTypeIsComplex dt
      | _ \<Rightarrow> False)"

definition spec_unequal_pair :: "GDALDataType \<Rightarrow> GDALDataset \<Rightarrow> bool" where
  "spec_unequal_pair dt f =
     (case map rb_eDataType (gd_bands f) of
        [t, t'] \<Rightarrow> t \<noteq> t' \<and> GDALDataTypeIsComplex dt
      | _ \<Rightarrow> False)"

section \<open>Properties of the prober and of the raw band\<close>

lemma two_band_file:
  assumes "GetRasterCount f = 2"
  obtains x y where "gd_bands f = [x, y]"
proof -
  from assms have "length (gd_bands f) = 2" by (simp add: GetRasterCount_def)
  then obtain x y where "gd_bands f = [x, y]"
    by (metis (no_types, opaque_lifting) One_nat_def Suc_1 length_0_conv length_Suc_conv)
  thus ?thesis ..
qed

lemma not_two_bands:
  "GetRasterCount f \<noteq> 2 \<Longrightarrow>
   \<not> spec_real_pair_rule dt f \<and> \<not> spec_complex_pair_rule dt f \<and> \<not> spec_unequal_pair dt f"
  by (auto simp: spec_real_pair_rule_def spec_complex_pair_rule_def spec_unequal_pair_def
      GetRasterCount_def split: list.splits)

text \<open>
  C3, as stated, does not hold: with the NITF flag set, a file with two bands of unequal
  element types and a complex requested type is rejected with \<open>BANDERROR\<close>.
\<close>

theorem C3_counterexample:
  "checkBandFileMappingRCM GDT_CInt16 (file_of_types [GDT_Int16, GDT_Float32] 4) True
     = Inr BANDERROR"
  by (simp add: checkBandFileMappingRCM_def file_of_types_def GetRasterBand_def
      GetRasterCount_def)

text \<open>
  C3, amended: for a NITF container with at least one band the prober returns a mapping,
  and the mapping is fixed by the rules: \<open>STRAIGHT\<close> when the Straight rule matches;
  otherwise \<open>BANDERROR\<close> when the file has two bands of unequal element types and the
  requested type is complex; otherwise \<open>TWOBANDCOMPLEX\<close> when one of the two
  TwoBandComplex rules matches; and \<open>STRAIGHT\<close> in every case that is left. So
  \<open>BANDERROR\<close> is returned for the unequal pair and for nothing else.
\<close>

theorem C3_nitf_escape_hatch:
  assumes "GetRasterBand f 1 = Some b1"
  shows "checkBandFileMappingRCM dt f True =
           Inr (if spec_straight_rule dt f then STRAIGHT
                else if spec_unequal_pair dt f then BANDERROR
                else if spec_real_pair_rule dt f \<or> spec_complex_pair_rule dt f
                then TWOBANDCOMPLEX
                else STRAIGHT)"
proof (cases "GetRasterCount f = 2")
  case False
  with assms not_two_bands [OF False, of dt] show ?thesis
    by (auto simp: checkBandFileMappingRCM_def Let_def spec_straight_rule_def
        first_band_type_def)
next
  case True
  then obtain x y where xy: "gd_bands f = [x, y]" by (rule two_band_file)
  with assms have b1: "b1 = x" and b2: "GetRasterBand f 2 = Some y"
    by (simp_all add: GetRasterBand_def GetRasterCount_def)
  show ?thesis
    using True assms b2 xy b1
    by (cases dt; cases "rb_eDataType x"; cases "rb_eDataType y")
       (simp_all add: checkBandFileMappingRCM_def Let_def spec_straight_rule_def
         spec_unequal_pair_def spec_real_pair_rule_def spec_complex_pair_rule_def)
qed

theorem C3_nitf_escape_hatch_witness:
  "GetRasterBand (file_of_types [GDT_Byte, GDT_Byte, GDT_Byte] 4) 1
     = Some \<lparr> rb_eDataType = GDT_Byte, rb_nBlockXSize = 512, rb_nBlockYSize = 512 \<rparr>
   \<and> checkBandFileMappingRCM GDT_CInt16 (file_of_types [GDT_Byte, GDT_Byte, GDT_Byte] 4) True
     = Inr STRAIGHT"
proof -
  have h: "GetRasterBand (file_of_types [GDT_Byte, GDT_Byte, GDT_Byte] 4) 1
     = Some \<lparr> rb_eDataType = GDT_Byte, rb_nBlockXSize = 512, rb_nBlockYSize = 512 \<rparr>"
    by (simp add: file_of_types_def GetRasterBand_def GetRasterCount_def)
  from C3_nitf_escape_hatch [OF h, of GDT_CInt16] h show ?thesis
    by (simp add: spec_straight_rule_def spec_unequal_pair_def spec_real_pair_rule_def
        spec_complex_pair_rule_def file_of_types_def GetRasterCount_def)
qed



text \<open>
  C10: on a raw band the LUT accessors are constants. \<open>IsExistLUT\<close> is false, the LUT
  size is 0, the offset is 0.0, the file name is null, \<open>GetLUT\<close> is NaN at every pixel,
  and \<open>SetPartialLUT\<close> leaves the band and everything around it as it was.
\<close>

theorem C10_raw_band_lut_accessors:
  "RCMRasterBand_IsExistLUT b = False
   \<and> RCMRasterBand_GetLUTsize b = 0
   \<and> RCMRasterBand_GetLUTOffset b = Finite 0
   \<and> RCMRasterBand_GetLUTFilename b = None
   \<and> RCMRasterBand_GetLUT b pixel = NaN
   \<and> RCMRasterBand_SetPartialLUT (b, w) pixel_offset pixel_width = (b, w)"
  by (simp add: RCMRasterBand_IsExistLUT_def RCMRasterBand_GetLUTsize_def
      RCMRasterBand_GetLUTOffset_def RCMRasterBand_GetLUTFilename_def
      RCMRasterBand_GetLUT_def RCMRasterBand_SetPartialLUT_def)

section \<open>Floating-point numbers that are computed without rounding\<close>












section \<open>Facts about \<open>Open\<close> and the bands it builds\<close>

text \<open>\<open>c_toupper\<close> on the printable ASCII characters, for evaluating concrete runs.\<close>

lemma c_toupper_simps:
  "c_toupper CHR '' '' = CHR '' ''" "c_toupper CHR ''!'' = CHR ''!''"
  "c_toupper CHR ''#'' = CHR ''#''" "c_toupper CHR ''$'' = CHR ''$''"
  "c_toupper CHR ''%'' = CHR ''%''" "c_toupper CHR ''&'' = CHR ''&''"
  "c_toupper CHR ''('' = CHR ''(''" "c_toupper CHR '')'' = CHR '')''"
  "c_toupper CHR ''*'' = CHR ''*''" "c_toupper CHR ''+'' = CHR ''+''"
  "c_toupper CHR '','' = CHR '',''" "c_toupper CHR ''-'' = CHR ''-''"
  "c_toupper CHR ''.'' = CHR ''.''" "c_toupper CHR ''/'' = CHR ''/''"
  "c_toupper CHR ''0'' = CHR ''0''" "c_toupper CHR ''1'' = CHR ''1''"
  "c_toupper CHR ''2'' = CHR ''2''" "c_toupper CHR ''3'' = CHR ''3''"
  "c_toupper CHR ''4'' = CHR ''4''" "c_toupper CHR ''5'' = CHR ''5''"
  "c_toupper CHR ''6'' = CHR ''6''" "c_toupper CHR ''7'' = CHR ''7''"
  "c_toupper CHR ''8'' = CHR ''8''" "c_toupper CHR ''9'' = CHR ''9''"
  "c_toupper CHR '':'' = CHR '':''" "c_toupper CHR '';'' = CHR '';''"
  "c_toupper CHR ''<'' = CHR ''<''" "c_toupper CHR ''='' = CHR ''=''"
  "c_toupper CHR ''>'' = CHR ''>''" "c_toupper CHR ''?'' = CHR ''?''"
  "c_toupper CHR ''@'' = CHR ''@''" "c_toupper CHR ''A'' = CHR ''A''"
  "c_toupper CHR ''B'' = CHR ''B''" "c_toupper CHR ''C'' = CHR ''C''"
  "c_toupper CHR ''D'' = CHR ''D''" "c_toupper CHR ''E'' = CHR ''E''"
  "c_toupper CHR ''F'' = CHR ''F''" "c_toupper CHR ''G'' = CHR ''G''"
  "c_toupper CHR ''H'' = CHR ''H''" "c_toupper CHR ''I'' = CHR ''I''"
  "c_toupper CHR ''J'' = CHR ''J''" "c_toupper CHR ''K'' = CHR ''K''"
  "c_toupper CHR ''L'' = CHR ''L''" "c_toupper CHR ''M'' = CHR ''M''"
  "c_toupper CHR ''N'' = CHR ''N''" "c_toupper CHR ''O'' = CHR ''O''"
  "c_toupper CHR ''P'' = CHR ''P''" "c_toupper CHR ''Q'' = CHR ''Q''"
  "c_toupper CHR ''R'' = CHR ''R''" "c_toupper CHR ''S'' = CHR ''S''"
  "c_toupper CHR ''T'' = CHR ''T''" "c_toupper CHR ''U'' = CHR ''U''"
  "c_toupper CHR ''V'' = CHR ''V''" "c_toupper CHR ''W'' = CHR ''W''"
  "c_toupper CHR ''X'' = CHR ''X''" "c_toupper CHR ''Y'' = CHR ''Y''"
  "c_toupper CHR ''Z'' = CHR ''Z''" "c_toupper CHR ''['' = CHR ''[''"
  "c_toupper CHR '']'' = CHR '']''" "c_toupper CHR ''^'' = CHR ''^''"
  "c_toupper CHR ''_'' = CHR ''_''" "c_toupper CHR ''`'' = CHR ''`''"
  "c_toupper CHR ''a'' = CHR ''A''" "c_toupper CHR ''b'' = CHR ''B''"
  "c_toupper CHR ''c'' = CHR ''C''" "c_toupper CHR ''d'' = CHR ''D''"
  "c_toupper CHR ''e'' = CHR ''E''" "c_toupper CHR ''f'' = CHR ''F''"
  "c_toupper CHR ''g'' = CHR ''G''" "c_toupper CHR ''h'' = CHR ''H''"
  "c_toupper CHR ''i'' = CHR ''I''" "c_toupper CHR ''j'' = CHR ''J''"
  "c_toupper CHR ''k'' = CHR ''K''" "c_toupper CHR ''l'' = CHR ''L''"
  "c_toupper CHR ''m'' = CHR ''M''" "c_toupper CHR ''n'' = CHR ''N''"
  "c_toupper CHR ''o'' = CHR ''O''" "c_toupper CHR ''p'' = CHR ''P''"
  "c_toupper CHR ''q'' = CHR ''Q''" "c_toupper CHR ''r'' = CHR ''R''"
  "c_toupper CHR ''s'' = CHR ''S''" "c_toupper CHR ''t'' = CHR ''T''"
  "c_toupper CHR ''u'' = CHR ''U''" "c_toupper CHR ''v'' = CHR ''V''"
  "c_toupper CHR ''w'' = CHR ''W''" "c_toupper CHR ''x'' = CHR ''X''"
  "c_toupper CHR ''y'' = CHR ''Y''" "c_toupper CHR ''z'' = CHR ''Z''"
  "c_toupper CHR ''{'' = CHR ''{''" "c_toupper CHR ''|'' = CHR ''|''"
  "c_toupper CHR ''}'' = CHR ''}''" "c_toupper CHR ''~'' = CHR ''~''"
  by (simp_all add: c_toupper_def)

lemmas string_defs = STARTS_WITH_CI_def EQUAL_def FormatCalibration_def szLayerCalibration_def
  szLayerSeparator_def szBETA0_def szSIGMA0_def szGAMMA_def szUNCALIB_def szPathSeparator_def
  CALIBRATION_FOLDER_def GetMetadataProduct_def toupper_def c_toupper_simps

lemmas open_defs = open_document_def open_context_def initial_state_def
  string_defs sample_data_type_def tokenize_def count_words_def c_isspace_def
  scan_noise_def noise_entry_def lut_entry_def lut_found_def can_calib_def
  IsValidXMLFile_def incidence_block_def ends_with_NTF_def open_pole_def create_band_def
  selected_lut_def polarization_message_fits_def unsupported_message_fits_def
  decimal_width_def RCMCalibRasterBand_new_def ReadLUT_def ReadNoiseLevels_def
  sprintf_s_int_def lut_values_def
  file_of_types_def GetRasterBand_def GetRasterCount_def checkBandFileMappingRCM_def
  wrap32_def c_abs_def add_subdataset_def finish_subdatasets_def open_geotransform_def
  RCMRasterBand_new_def Let_def

lemmas demo_defs = demo_env_def demo_files_def demo_px_def demo_lut_def demo_IV_def
  demo_CPLFormFilename_def demo_CPLGetPath_def product_doc_def lut_doc_def noise_doc_def
  no_product_def no_incidence_def

subsection \<open>The descriptor of the examples\<close>

lemma demo_header_ok:
  "\<not> int (length demo_header) < 100"
  "strstr demo_header ''/rcm''"
  "strstr demo_header ''<product''"
  by (simp_all add: demo_header_def)

lemma Identify_demo:
  "Identify (demo_files px n f lx) (GDALOpenInfo_new (demo_files px n f lx) ''product.xml'' upd)"
  using demo_header_ok
  by (simp add: Identify_def GDALOpenInfo_new_def demo_files_def string_defs)

lemma descriptor_name_demo:
  "descriptor_name (demo_files px n f lx)
     (GDALOpenInfo_new (demo_files px n f lx) ''product.xml'' upd) = ''product.xml''"
  by (simp add: descriptor_name_def GDALOpenInfo_new_def demo_files_def parse_subdataset_def
      string_defs)

lemma Open_demo:
  "Open (demo_files px n f lx) IV ''product.xml'' upd
     = open_document (demo_files px n f lx) IV NoCalib ''product.xml'' px upd"
proof -
  have p: "parse_subdataset ''product.xml'' = (NoCalib, ''product.xml'')"
    by (simp add: parse_subdataset_def string_defs)
  have x: "env_CPLParseXMLFile (demo_files px n f lx) ''product.xml'' = Some (product_doc px)"
    by (simp add: demo_files_def)
  have o: "oi_pszFilename (GDALOpenInfo_new (demo_files px n f lx) ''product.xml'' upd)
             = ''product.xml''"
          "oi_update (GDALOpenInfo_new (demo_files px n f lx) ''product.xml'' upd) = upd"
    by (simp_all add: GDALOpenInfo_new_def)
  show ?thesis
    unfolding Open_def RCMDataset_Open_def Let_def
    by (simp only: Identify_demo descriptor_name_demo o p x)
       (simp add: product_doc_def)
qed

lemma Open_demo_tag:
  assumes "parse_subdataset (''RCM_CALIB:'' @ tag) = (eCalib, ''product.xml'')"
  shows "Open (demo_files px n f lx) IV (''RCM_CALIB:'' @ tag) upd
     = open_document (demo_files px n f lx) IV eCalib ''product.xml'' px upd"
proof -
  let ?env = "demo_files px n f lx"
  let ?oi = "GDALOpenInfo_new ?env (''RCM_CALIB:'' @ tag) upd"
  have s: "STARTS_WITH_CI (''RCM_CALIB:'' @ tag) (FormatCalibration None None)"
    by (simp add: string_defs)
  have o: "oi_pszFilename ?oi = ''RCM_CALIB:'' @ tag" "oi_update ?oi = upd"
    by (simp_all add: GDALOpenInfo_new_def)
  have i: "Identify ?env ?oi"
    unfolding Identify_def o using s by simp
  have d: "descriptor_name ?env ?oi = ''product.xml''"
    unfolding descriptor_name_def Let_def o assms using s
    by (simp add: demo_files_def)
  have x: "env_CPLParseXMLFile ?env ''product.xml'' = Some (product_doc px)"
    by (simp add: demo_files_def)
  show ?thesis
    unfolding Open_def RCMDataset_Open_def Let_def
    by (simp only: i d o assms x) (simp add: product_doc_def)
qed

lemma parse_demo_tags:
  "parse_subdataset (''RCM_CALIB:'' @ ''SIGMA0:product.xml'') = (Sigma0, ''product.xml'')"
  "parse_subdataset (''RCM_CALIB:'' @ ''UNCALIBX:product.xml'') = (Uncalib, ''product.xml'')"
  "parse_subdataset (''RCM_CALIB:'' @ ''FOO:product.xml'') = (NoCalib, ''product.xml'')"
  by (simp_all add: parse_subdataset_def string_defs)

subsection \<open>The element type table\<close>

lemma sample_data_type_table:
  "sample_data_type ''Complex'' 32 = Some (GDT_CFloat32, True)"
  "sample_data_type ''Complex'' 16 = Some (GDT_CInt16, True)"
  "sample_data_type ''Magnitude Detected'' 32 = Some (GDT_Float32, False)"
  "sample_data_type ''Magnitude Detected'' 16 = Some (GDT_UInt16, False)"
  by (simp_all add: sample_data_type_def EQUAL_def c_toupper_def)

lemma sample_data_type_unknown:
  "\<not> EQUAL s ''Complex'' \<Longrightarrow> \<not> EQUAL s ''Magnitude Detected'' \<Longrightarrow> sample_data_type s n = None"
  by (simp add: sample_data_type_def)

lemma sample_data_type_magnitude_bits:
  "EQUAL s ''Magnitude Detected'' \<Longrightarrow> n \<noteq> 16 \<Longrightarrow> n \<noteq> 32 \<Longrightarrow> sample_data_type s n = None"
  by (simp add: sample_data_type_def EQUAL_def c_toupper_def)

lemma sample_data_type_complex_bits:
  "EQUAL s ''Complex'' \<Longrightarrow> n \<noteq> 32 \<Longrightarrow> sample_data_type s n = Some (GDT_CInt16, True)"
  by (simp add: sample_data_type_def)

lemma sample_data_type_cases:
  assumes "sample_data_type s n = Some (t0, cplx)"
  shows "(cplx \<and> (t0 = GDT_CFloat32 \<or> t0 = GDT_CInt16))
         \<or> (\<not> cplx \<and> (t0 = GDT_Float32 \<or> t0 = GDT_UInt16))"
  using assms by (auto simp: sample_data_type_def split: if_splits)

text \<open>
  C5 holds for the four rows of the table, for an unknown sample type and for a
  magnitude product of another width (the four lemmas above). It fails for a complex
  product: every \<open>bitsPerSample\<close> other than 32 takes the branch that the source marks
  "16 bits" and yields CInt16, so a descriptor with \<open>sampleType = Complex\<close> and
  \<open>bitsPerSample = 8\<close> is opened, with a CInt16 band, instead of being refused.
\<close>

theorem C5_complex_8_bits_is_opened:
  "sample_data_type ''Complex'' 8 = Some (GDT_CInt16, True)
   \<and> (case Open (demo_env ''Complex'' 8 [GDT_CInt16] (demo_lut 1 4)) demo_IV ''product.xml'' False of
        Ok ds \<Rightarrow> map band_eDataType (ds_papoBands ds) = [GDT_CInt16]
      | _ \<Rightarrow> False)"
  by (simp add: demo_env_def Open_demo) (simp add: open_defs demo_defs band_eDataType_def)

subsection \<open>Loading the LUT\<close>



text \<open>
  C2 does not hold of the program. \<open>ReadLUT\<close> begins by printing the band number with
  \<open>sprintf(bandNumber, "%s", poDS->GetRasterCount() + 1)\<close>, an \<open>int\<close> where \<open>%s\<close>
  expects a string: the process dies there, before the tests on the number of values, the
  step and the table length. Opening the Sigma Nought view of the demonstration product
  ends in that fault whether its LUT has no value, a step of zero, a table shorter than the
  raster or nothing wrong: no LUT error is reported, and \<open>Open\<close> returns neither a
  dataset nor null.
\<close>

theorem C2_calibrated_open_dies_in_ReadLUT:
  "ReadLUT IV psLUT nBands bm = Inl BadFormat
   \<and> Open (demo_env ''Complex'' 32 [GDT_CFloat32] (demo_lut 1 0)) demo_IV
        ''RCM_CALIB:SIGMA0:product.xml'' False = Crashed BadFormat
   \<and> Open (demo_env ''Complex'' 32 [GDT_CFloat32] (demo_lut 0 4)) demo_IV
        ''RCM_CALIB:SIGMA0:product.xml'' False = Crashed BadFormat
   \<and> Open (demo_env ''Complex'' 32 [GDT_CFloat32] (demo_lut 1 3)) demo_IV
        ''RCM_CALIB:SIGMA0:product.xml'' False = Crashed BadFormat
   \<and> Open (demo_env ''Complex'' 32 [GDT_CFloat32] (demo_lut 1 4)) demo_IV
        ''RCM_CALIB:SIGMA0:product.xml'' False = Crashed BadFormat"
proof -
  have "\<And>lx. Open (demo_env ''Complex'' 32 [GDT_CFloat32] lx) demo_IV
                 (''RCM_CALIB:'' @ ''SIGMA0:product.xml'') False = Crashed BadFormat"
    unfolding demo_env_def Open_demo_tag [OF parse_demo_tags(1)]
    by (simp add: open_defs demo_defs)
  thus ?thesis by (simp add: ReadLUT_def sprintf_s_int_def)
qed

subsection \<open>The loop over the polarizations\<close>









lemma open_context_simps:
  "cx_eCalib (open_context env IV c m px b) = c"
  "cx_isComplexData (open_context env IV c m px b) = b"
  by (simp_all add: open_context_def Let_def)




section \<open>The size of the lookup table and its metadata item\<close>





section \<open>The element type a band reports\<close>








subsection \<open>The subdataset prefix\<close>











section \<open>The geotransform and its validation\<close>







section \<open>Block reads at the edge of the raster and the calibrated pixel\<close>

lemma Open_nitf:
  "\<exists>b1 b2 b3 b4. Open nitf_env demo_IV ''product.xml'' False
       = Ok \<lparr> ds_nRasterXSize = 3, ds_nRasterYSize = 3, ds_isComplexData = True,
               ds_papoBands = [Raw b1, Raw b2, Raw b3, Raw b4],
               ds_metadata = Map.empty, ds_papszSubDatasets = [],
               ds_adfGeoTransform = [Finite 0, Finite 1, Finite 0, Finite 0, Finite 0, Finite 1],
               ds_bHaveGeoTransform = False,
               ds_m_IncidenceAngleTableSize = 0, ds_m_nfIncidenceAngleTable = None,
               ds_cplErrors = [], ds_cplWarnings = [] \<rparr>
     \<and> b1 = \<lparr> rw_poBandFile =
                  file_of_blocks [GDT_CFloat32, GDT_CFloat32, GDT_CFloat32, GDT_CFloat32] 3,
                rw_m_eCalib = Uncalib, rw_nBand = 1, rw_eDataType = GDT_CFloat32,
                rw_twoBandComplex = False, rw_isOneFilePerPol = False, rw_isNITF = True,
                rw_isComplexData = True, rw_nBlockXSize = 2, rw_nBlockYSize = 2,
                rw_nRasterXSize = 3, rw_nRasterYSize = 3 \<rparr>"
  by (simp add: nitf_env_def Open_demo)
     (simp add: open_defs demo_defs nitf_px_def file_of_blocks_def)

lemmas block_defs = clip_request_def memset0_def GDALGetDataTypeSizeBytes_def
  GetRasterCount_def GetRasterBand_def file_of_blocks_def RasterIO_cells_def Let_def

text \<open>
  C7 does not hold of every band. The demonstration NITF product is complex, its image
  file has four CFloat32 bands, and the prober maps it straight; \<open>Open\<close> builds four raw
  bands on it. A raw band of a complex product that is not mapped from two bands reads
  two bands of the file with a band spacing equal to the pixel spacing, so that the sample
  of the second band lands in the cell after the sample of the first. For the block at
  the right edge, where one column of the raster is left, that cell is the first cell
  outside the covered column: after the read the second column of the block holds the
  pixels of band 2 and not zero.
\<close>

theorem C7_remainder_is_overwritten:
  "case Open nitf_env demo_IV ''product.xml'' False of
     Ok ds \<Rightarrow>
       (case ds_papoBands ds ! 0 of
          Raw b \<Rightarrow>
            clip_request 1 (rw_nBlockXSize b) (rw_nRasterXSize b) = (1, True)
            \<and> clip_request 0 (rw_nBlockYSize b) (rw_nRasterYSize b) = (2, False)
            \<and> (case RCMRasterBand_IReadBlock (RasterIO_cells 8 nitf_picture) b 1 0 pImage of
                  Inr (eErr, out) \<Rightarrow>
                    eErr = CE_None \<and> out 0 = 120 \<and> out 1 = 220 \<and> out 2 = 121 \<and> out 3 = 221
                | Inl e \<Rightarrow> False)
        | Calib c \<Rightarrow> False)
   | _ \<Rightarrow> False"
proof -
  from Open_nitf obtain b1 b2 b3 b4 :: RCMRasterBand where
    o: "Open nitf_env demo_IV ''product.xml'' False
       = Ok \<lparr> ds_nRasterXSize = 3, ds_nRasterYSize = 3, ds_isComplexData = True,
               ds_papoBands = [Raw b1, Raw b2, Raw b3, Raw b4],
               ds_metadata = Map.empty, ds_papszSubDatasets = [],
               ds_adfGeoTransform = [Finite 0, Finite 1, Finite 0, Finite 0, Finite 0, Finite 1],
               ds_bHaveGeoTransform = False,
               ds_m_IncidenceAngleTableSize = 0, ds_m_nfIncidenceAngleTable = None,
               ds_cplErrors = [], ds_cplWarnings = [] \<rparr>"
    and b: "b1 = \<lparr> rw_poBandFile =
                  file_of_blocks [GDT_CFloat32, GDT_CFloat32, GDT_CFloat32, GDT_CFloat32] 3,
                rw_m_eCalib = Uncalib, rw_nBand = 1, rw_eDataType = GDT_CFloat32,
                rw_twoBandComplex = False, rw_isOneFilePerPol = False, rw_isNITF = True,
                rw_isComplexData = True, rw_nBlockXSize = 2, rw_nBlockYSize = 2,
                rw_nRasterXSize = 3, rw_nRasterYSize = 3 \<rparr>"
    by (elim exE conjE)
  have r: "RCMRasterBand_IReadBlock (RasterIO_cells 8 nitf_picture) b1 1 0 pImage
             = Inr (CE_None, (memset0 0 4 pImage)(0 := 120, 2 := 121, 1 := 220, 3 := 221))"
    unfolding b
    by (simp add: RCMRasterBand_IReadBlock_def raw_request_def block_defs nitf_picture_def
        eval_nat_numeral)
  show ?thesis
    unfolding o using r by (simp add: b clip_request_def)
qed


end
